theory Spec2Isabelle
  imports Main
begin

section \<open>JavaScript values\<close>

text \<open>
  The arguments of the public operations are untyped at run time, and the validators of
  \<^verbatim>\<open>utils.ts\<close> inspect them with \<^verbatim>\<open>!v\<close> and \<^verbatim>\<open>typeof v\<close>, so an
  argument is a JavaScript value. Numbers are the integer-valued ones that a double holds
  exactly (no NaN, no infinity, no fraction), strings are byte strings, an object is the
  list of its own enumerable properties in enumeration order, and a function is known by an
  identifier only.
\<close>

datatype jsval =
    JUndefined
  | JNull
  | JBool bool
  | JNum int
  | JStr string
  | JArr "jsval list"
  | JObj "(string \<times> jsval) list"
  | JFun nat

text \<open>\<^verbatim>\<open>!!v\<close>: the values that count as true in a condition.\<close>

fun truthy :: "jsval \<Rightarrow> bool" where
  "truthy JUndefined = False"
| "truthy JNull = False"
| "truthy (JBool b) = b"
| "truthy (JNum n) = (n \<noteq> 0)"
| "truthy (JStr s) = (s \<noteq> [])"
| "truthy (JArr xs) = True"
| "truthy (JObj kvs) = True"
| "truthy (JFun f) = True"

fun typeof :: "jsval \<Rightarrow> string" where
  "typeof JUndefined = ''undefined''"
| "typeof JNull = ''object''"
| "typeof (JBool b) = ''boolean''"
| "typeof (JNum n) = ''number''"
| "typeof (JStr s) = ''string''"
| "typeof (JArr xs) = ''object''"
| "typeof (JObj kvs) = ''object''"
| "typeof (JFun f) = ''function''"

text \<open>
  The property read \<^verbatim>\<open>v.k\<close> on a value other than \<^verbatim>\<open>undefined\<close> and \<^verbatim>\<open>null\<close>
  (on those the read raises a TypeError, which each caller writes out). Only objects carry
  the properties read by this program.
\<close>

fun getProp :: "jsval \<Rightarrow> string \<Rightarrow> jsval" where
  "getProp (JObj kvs) k = (case map_of kvs k of None \<Rightarrow> JUndefined | Some v \<Rightarrow> v)"
| "getProp v k = JUndefined"

subsection \<open>Strings: split, join, number rendering\<close>

text \<open>\<^verbatim>\<open>s.split(sep)\<close> for a one-character separator: always at least one piece.\<close>

fun split_str :: "char \<Rightarrow> string \<Rightarrow> string list" where
  "split_str sep [] = [[]]"
| "split_str sep (c # cs) =
     (if c = sep then [] # split_str sep cs
      else (case split_str sep cs of [] \<Rightarrow> [[c]] | w # ws \<Rightarrow> (c # w) # ws))"

text \<open>\<^verbatim>\<open>xs.join(sep)\<close>.\<close>

fun join_str :: "string \<Rightarrow> string list \<Rightarrow> string" where
  "join_str sep [] = []"
| "join_str sep [x] = x"
| "join_str sep (x # y # ys) = x @ sep @ join_str sep (y # ys)"

fun show_nat :: "nat \<Rightarrow> string" where
  "show_nat n =
     (if n < 10 then [''0123456789'' ! n]
      else show_nat (n div 10) @ [''0123456789'' ! (n mod 10)])"

definition show_int :: "int \<Rightarrow> string" where
  "show_int i = (if i < 0 then ''-'' @ show_nat (nat (- i)) else show_nat (nat i))"

subsection \<open>JSON.stringify\<close>

text \<open>
  The two context comparisons of the engine are
  \<^verbatim>\<open>JSON.stringify(a) === JSON.stringify(b)\<close>. \<^verbatim>\<open>JSON.stringify\<close> returns a string, or
  \<^verbatim>\<open>undefined\<close> (here \<open>None\<close>) for \<^verbatim>\<open>undefined\<close> and for a function. Inside an
  array those two are written \<^verbatim>\<open>null\<close>; inside an object the property is left out.
  Properties are written in enumeration order. An object with a callable \<^verbatim>\<open>toJSON\<close> is
  serialised through a call of it, which a function known by an identifier cannot give:
  \<open>JSON_stringify\<close> is the text of a value in which no object has a callable
  \<^verbatim>\<open>toJSON\<close>.
\<close>

definition escape_char :: "char \<Rightarrow> string" where
  "escape_char c =
     (if c = CHR 0x22 then [CHR 0x5C, CHR 0x22]
      else if c = CHR 0x5C then [CHR 0x5C, CHR 0x5C]
      else if c = CHR 0x08 then [CHR 0x5C, CHR ''b'']
      else if c = CHR 0x0C then [CHR 0x5C, CHR ''f'']
      else if c = CHR 0x0A then [CHR 0x5C, CHR ''n'']
      else if c = CHR 0x0D then [CHR 0x5C, CHR ''r'']
      else if c = CHR 0x09 then [CHR 0x5C, CHR ''t'']
      else if (of_char c :: nat) < 32
        then [CHR 0x5C, CHR ''u'', CHR ''0'', CHR ''0'',
              ''0123456789abcdef'' ! (of_char c div 16),
              ''0123456789abcdef'' ! (of_char c mod 16)]
      else [c])"

definition quoteJSONString :: "string \<Rightarrow> string" where
  "quoteJSONString s = [CHR 0x22] @ concat (map escape_char s) @ [CHR 0x22]"

primrec JSON_stringify :: "jsval \<Rightarrow> string option" where
  "JSON_stringify JUndefined = None"
| "JSON_stringify JNull = Some ''null''"
| "JSON_stringify (JBool b) = Some (if b then ''true'' else ''false'')"
| "JSON_stringify (JNum n) = Some (show_int n)"
| "JSON_stringify (JStr s) = Some (quoteJSONString s)"
| "JSON_stringify (JArr xs) =
     Some (''['' @ join_str '',''
       (map (\<lambda>r. case r of None \<Rightarrow> ''null'' | Some s \<Rightarrow> s) (map JSON_stringify xs)) @ '']'')"
| "JSON_stringify (JObj kvs) =
     Some (''{'' @ join_str '',''
       (concat (map (\<lambda>(k, r). case r of None \<Rightarrow> [] | Some s \<Rightarrow> [quoteJSONString k @ '':'' @ s])
          (map (map_prod id JSON_stringify) kvs))) @ ''}'')"
| "JSON_stringify (JFun f) = None"

subsection \<open>Thrown values\<close>

text \<open>
  What a \<^verbatim>\<open>throw\<close> raises and what a promise rejects with: an \<^verbatim>\<open>Error\<close> made by the
  program with \<^verbatim>\<open>new Error(message)\<close>, or a \<^verbatim>\<open>TypeError\<close> raised by the engine on a
  read from \<^verbatim>\<open>undefined\<close> (its message is the engine's; only that it is not empty
  matters here). A rejecting platform capability rejects with one of these, its message
  possibly empty. In a result \<open>thrown + 'a\<close>, \<open>Inl\<close> is the exception of a synchronous
  function and the rejection of an \<^verbatim>\<open>async\<close> one.
\<close>

datatype thrown = Error string | TypeError string

fun message :: "thrown \<Rightarrow> string" where
  "message (Error m) = m"
| "message (TypeError m) = m"

text \<open>\<^verbatim>\<open>error.message || fallback\<close>: the empty string is falsy.\<close>

definition message_or :: "thrown \<Rightarrow> string \<Rightarrow> string" where
  "message_or e fallback = (if message e \<noteq> [] then message e else fallback)"

section \<open>Data model\<close>

text \<open>
  Modelled from the spec: the declarations of \<^verbatim>\<open>interfaces/client-api\<close> (\<^verbatim>\<open>Method\<close>,
  \<^verbatim>\<open>InteropPeerDescriptor\<close>, \<^verbatim>\<open>Application\<close>, \<^verbatim>\<open>InteropPeer\<close>, \<^verbatim>\<open>InteropPlatform\<close>,
  \<^verbatim>\<open>Platform\<close>), which the engine imports and which are not among the sources. A method
  has a name, an ordered and possibly empty sequence of declared intents, each a name with a
  context, and the peer that registered it.
\<close>

record MethodIntent =
  name :: string
  "context" :: jsval

record InteropPeerDescriptor =
  applicationName :: string

record Method =
  name :: string
  intent :: "MethodIntent list"
  peer :: InteropPeerDescriptor

text \<open>\<^verbatim>\<open>interfaces/interface.ts\<close>: the results of the two find operations.\<close>

record IntentMetadata =
  name :: string
  displayName :: string

record AppMetadata =
  name :: string

record AppIntent =
  intent :: IntentMetadata
  apps :: "AppMetadata list"

subsection \<open>Remote calls\<close>

text \<open>
  Every call of a platform capability is recorded, in the order of the calls, with the name
  of the platform it goes to. \<^verbatim>\<open>invoke\<close> is given a method name or a discovered method.
\<close>

datatype invokeTarget = ByName string | ByMethod Method

datatype event =
    Connect string string
  | DiscoverMethods string
  | Invoke string invokeTarget jsval
  | Register string string
  | OnMethodRegistered string

text \<open>
  Modelled from the spec: the capability contract of a connected platform.
  \<^verbatim>\<open>discoverMethods\<close> resolves to a snapshot of the methods or rejects; \<^verbatim>\<open>invoke\<close>
  resolves to \<^verbatim>\<open>{result}\<close> or rejects. The platform is outside the program and its
  answers may change from call to call, so an answer is a function of the remote calls made
  so far.
\<close>

record InvocationResult =
  result :: jsval

record InteropPeer =
  isConnected :: bool
  connectionStatus :: jsval
  discoverMethods :: "event list \<Rightarrow> thrown + Method list"
  invoke :: "event list \<Rightarrow> invokeTarget \<Rightarrow> jsval \<Rightarrow> thrown + InvocationResult"

record Platform =
  name :: string
  version :: string
  online :: bool
  connectionStatus :: jsval
  config :: string
  platformApi :: InteropPeer

text \<open>
  A platform connection descriptor. \<open>application\<close> is \<^verbatim>\<open>config.application\<close> when
  \<^verbatim>\<open>config && config.application\<close> is truthy. \<open>connect k appName methods\<close> is the
  outcome of the connection attempt made at the \<open>k\<close>-th tick of the retry timer.
\<close>

record MethodImplementation =
  name :: string
  onInvoke :: jsval

record InteropPlatform =
  type :: string
  version :: string
  application :: "string option"
  connect :: "nat \<Rightarrow> string \<Rightarrow> MethodImplementation list \<Rightarrow> thrown + InteropPeer"

section \<open>Utils: argument validation\<close>

definition validateContext :: "jsval \<Rightarrow> thrown + unit" where
  \<open>validateContext context' =
     (if \<not> truthy context' then Inr ()
      else if typeof context' \<noteq> ''object''
        then Inl (Error ''Context must be of type "object"'')
      else if \<not> truthy (getProp context' ''type'')
        then Inl (Error ''Context type is mandatory parameter'')
      else if typeof (getProp context' ''type'') \<noteq> ''string''
        then Inl (Error ''Context type must be of type "string"'')
      else if truthy (getProp context' ''name'') \<and> typeof (getProp context' ''name'') \<noteq> ''string''
        then Inl (Error ''Context name must be of type "string"'')
      else Inr ())\<close>

definition validateIntent :: "jsval \<Rightarrow> thrown + unit" where
  \<open>validateIntent intent' =
     (if \<not> truthy intent' then Inl (Error ''Intent is mandatory parameter'')
      else if typeof intent' \<noteq> ''string''
        then Inl (Error ''Intent must be of type "string"'')
      else Inr ())\<close>

definition validateOpenParams :: "jsval \<Rightarrow> jsval \<Rightarrow> thrown + unit" where
  \<open>validateOpenParams app context' =
     (if \<not> truthy app then Inl (Error ''App is mandatory parameter'')
      else if typeof app \<noteq> ''string'' then Inl (Error ''App must be of type "string"'')
      else (case validateContext context' of
              Inl error \<Rightarrow> Inl (Error (message error))
            | Inr u \<Rightarrow> Inr ()))\<close>

definition validateIntentAndContextParams :: "jsval \<Rightarrow> jsval \<Rightarrow> thrown + unit" where
  "validateIntentAndContextParams intent' context' =
     (case validateIntent intent' of
        Inl e \<Rightarrow> Inl e
      | Inr u \<Rightarrow> validateContext context')"

definition validateRaiseIntent :: "jsval \<Rightarrow> jsval \<Rightarrow> jsval \<Rightarrow> thrown + unit" where
  \<open>validateRaiseIntent intent' context' target =
     (case validateIntentAndContextParams intent' context' of
        Inl e \<Rightarrow> Inl e
      | Inr u \<Rightarrow>
          (if truthy target \<and> typeof target \<noteq> ''string''
           then Inl (Error ''Target must be of type "string"'')
           else Inr ()))\<close>

definition validateAddIntentListener :: "jsval \<Rightarrow> jsval \<Rightarrow> thrown + unit" where
  \<open>validateAddIntentListener intent' handler =
     (case validateIntent intent' of
        Inl e \<Rightarrow> Inl e
      | Inr u \<Rightarrow>
          (if \<not> truthy handler then Inl (Error ''Handler is mandatory parameter'')
           else if typeof handler \<noteq> ''function''
             then Inl (Error ''Handler must be of type "function"'')
           else Inr ()))\<close>

section \<open>Fdc3Impl: the routing engine\<close>

text \<open>
  The engine object holds the connected platforms. An operation takes the remote calls made
  so far and returns its outcome with the calls extended by its own.
\<close>

record Fdc3Impl =
  platforms :: "Platform list"

text \<open>
  The engine's other field, \<^verbatim>\<open>defaultErrorMessage\<close>, is shared by all the calls of
  \<^verbatim>\<open>open\<close> on the engine. A call writes it when it starts and reads it in its
  \<^verbatim>\<open>catch\<close> blocks, after it has been suspended on remote calls; a call of \<^verbatim>\<open>open\<close>
  that runs in between overwrites it. What the other calls do to the field is an argument
  of \<^verbatim>\<open>open\<close>: \<open>others h\<close> is the message that another call has left in the field when
  this call reads it after the remote calls \<open>h\<close>, and \<open>None\<close> when no other call has
  written the field since this call did. A call's own message is \<open>own\<close>.
\<close>

definition defaultErrorMessageAt ::
  "string \<Rightarrow> (event list \<Rightarrow> string option) \<Rightarrow> event list \<Rightarrow> string" where
  "defaultErrorMessageAt own others h = (case others h of None \<Rightarrow> own | Some m \<Rightarrow> m)"

text \<open>
  The string held by an argument that validation has shown to be a string, as a template
  literal and a string-typed field take it.
\<close>

fun asString :: "jsval \<Rightarrow> string" where
  "asString (JStr s) = s"
| "asString v = []"

subsection \<open>findIntent\<close>

text \<open>
  The three nested \<^verbatim>\<open>for ... of\<close> loops, innermost first; \<open>acc\<close> is
  \<^verbatim>\<open>appIntent.apps\<close>, to which \<^verbatim>\<open>push\<close> appends. A method always has its
  \<^verbatim>\<open>intent\<close> sequence, so of the guard \<^verbatim>\<open>method.intent && method.intent.length > 0\<close>
  the length test remains.
\<close>

fun findIntent_intents ::
  "jsval \<Rightarrow> jsval \<Rightarrow> Method \<Rightarrow> MethodIntent list \<Rightarrow> AppMetadata list \<Rightarrow> AppMetadata list" where
  "findIntent_intents intent' context' m [] acc = acc"
| "findIntent_intents intent' context' m (methodIntent # rest) acc =
     findIntent_intents intent' context' m rest
       (if JStr (MethodIntent.name methodIntent) = intent' \<and>
           (\<not> truthy context' \<or>
            JSON_stringify context' = JSON_stringify (context methodIntent))
        then acc @ [\<lparr>AppMetadata.name = applicationName (peer m)\<rparr>]
        else acc)"

fun findIntent_methods ::
  "jsval \<Rightarrow> jsval \<Rightarrow> Method list \<Rightarrow> AppMetadata list \<Rightarrow> AppMetadata list" where
  "findIntent_methods intent' context' [] acc = acc"
| "findIntent_methods intent' context' (m # ms) acc =
     findIntent_methods intent' context' ms
       (if length (Method.intent m) > 0
        then findIntent_intents intent' context' m (Method.intent m) acc
        else acc)"

fun findIntent_platforms ::
  "jsval \<Rightarrow> jsval \<Rightarrow> Platform list \<Rightarrow> AppMetadata list \<Rightarrow> event list
    \<Rightarrow> (thrown + AppMetadata list) \<times> event list" where
  "findIntent_platforms intent' context' [] acc tr = (Inr acc, tr)"
| "findIntent_platforms intent' context' (p # ps) acc tr =
     (case discoverMethods (platformApi p) tr of
        Inl e \<Rightarrow> (Inl e, tr @ [DiscoverMethods (Platform.name p)])
      | Inr methods \<Rightarrow>
          findIntent_platforms intent' context' ps
            (findIntent_methods intent' context' methods acc)
            (tr @ [DiscoverMethods (Platform.name p)]))"

definition findIntent ::
  "Fdc3Impl \<Rightarrow> jsval \<Rightarrow> jsval \<Rightarrow> event list \<Rightarrow> (thrown + AppIntent) \<times> event list" where
  "findIntent fdc3 intent' context' tr =
     (case validateIntentAndContextParams intent' context' of
        Inl e \<Rightarrow> (Inl e, tr)
      | Inr u \<Rightarrow>
          (case findIntent_platforms intent' context' (platforms fdc3) [] tr of
             (Inl e, tr') \<Rightarrow> (Inl e, tr')
           | (Inr acc, tr') \<Rightarrow>
               (Inr \<lparr>intent = \<lparr>IntentMetadata.name = asString intent',
                                displayName = asString intent'\<rparr>,
                     apps = acc\<rparr>, tr')))"

subsection \<open>findIntentsByContext\<close>

text \<open>
  \<^verbatim>\<open>appIntents.find(...)\<close> followed by a \<^verbatim>\<open>push\<close> onto the \<^verbatim>\<open>apps\<close> of the entry
  found: the first entry of that intent name is extended where it stands; \<open>None\<close> when
  \<^verbatim>\<open>find\<close> returns \<^verbatim>\<open>undefined\<close>.
\<close>

fun pushToFound :: "string \<Rightarrow> AppMetadata \<Rightarrow> AppIntent list \<Rightarrow> AppIntent list option" where
  "pushToFound n a [] = None"
| "pushToFound n a (appIntent # rest) =
     (if IntentMetadata.name (intent appIntent) = n
      then Some (appIntent\<lparr>apps := apps appIntent @ [a]\<rparr> # rest)
      else (case pushToFound n a rest of
              None \<Rightarrow> None
            | Some rest' \<Rightarrow> Some (appIntent # rest')))"

fun findIntentsByContext_intents ::
  "jsval \<Rightarrow> Method \<Rightarrow> MethodIntent list \<Rightarrow> AppIntent list \<Rightarrow> AppIntent list" where
  "findIntentsByContext_intents context' m [] appIntents = appIntents"
| "findIntentsByContext_intents context' m (methodIntent # rest) appIntents =
     findIntentsByContext_intents context' m rest
       (if JSON_stringify (context methodIntent) = JSON_stringify context'
        then (case pushToFound (MethodIntent.name methodIntent)
                     \<lparr>AppMetadata.name = applicationName (peer m)\<rparr> appIntents of
                Some appIntents' \<Rightarrow> appIntents'
              | None \<Rightarrow>
                  appIntents @
                    [\<lparr>intent = \<lparr>IntentMetadata.name = MethodIntent.name methodIntent,
                                 displayName = MethodIntent.name methodIntent\<rparr>,
                      apps = [\<lparr>AppMetadata.name = applicationName (peer m)\<rparr>]\<rparr>])
        else appIntents)"

fun findIntentsByContext_methods ::
  "jsval \<Rightarrow> Method list \<Rightarrow> AppIntent list \<Rightarrow> AppIntent list" where
  "findIntentsByContext_methods context' [] appIntents = appIntents"
| "findIntentsByContext_methods context' (m # ms) appIntents =
     findIntentsByContext_methods context' ms
       (if length (Method.intent m) > 0
        then findIntentsByContext_intents context' m (Method.intent m) appIntents
        else appIntents)"

fun findIntentsByContext_platforms ::
  "jsval \<Rightarrow> Platform list \<Rightarrow> AppIntent list \<Rightarrow> event list
    \<Rightarrow> (thrown + AppIntent list) \<times> event list" where
  "findIntentsByContext_platforms context' [] appIntents tr = (Inr appIntents, tr)"
| "findIntentsByContext_platforms context' (p # ps) appIntents tr =
     (case discoverMethods (platformApi p) tr of
        Inl e \<Rightarrow> (Inl e, tr @ [DiscoverMethods (Platform.name p)])
      | Inr methods \<Rightarrow>
          findIntentsByContext_platforms context' ps
            (findIntentsByContext_methods context' methods appIntents)
            (tr @ [DiscoverMethods (Platform.name p)]))"

definition findIntentsByContext ::
  "Fdc3Impl \<Rightarrow> jsval \<Rightarrow> event list \<Rightarrow> (thrown + AppIntent list) \<times> event list" where
  "findIntentsByContext fdc3 context' tr =
     (case validateContext context' of
        Inl e \<Rightarrow> (Inl e, tr)
      | Inr u \<Rightarrow> findIntentsByContext_platforms context' (platforms fdc3) [] tr)"

subsection \<open>raiseIntent\<close>

text \<open>
  The callback of \<^verbatim>\<open>methods.filter\<close>: it returns the method (truthy) at the first declared
  intent of the given name, when no target is given or the peer is the target, and
  \<^verbatim>\<open>undefined\<close> (falsy) when the loop ends.
\<close>

fun raiseIntent_intents :: "jsval \<Rightarrow> jsval \<Rightarrow> Method \<Rightarrow> MethodIntent list \<Rightarrow> bool" where
  "raiseIntent_intents intent' target m [] = False"
| "raiseIntent_intents intent' target m (methodIntent # rest) =
     (if JStr (MethodIntent.name methodIntent) = intent'
      then (if truthy target
            then (if JStr (applicationName (peer m)) = target then True
                  else raiseIntent_intents intent' target m rest)
            else True)
      else raiseIntent_intents intent' target m rest)"

definition raiseIntent_filter :: "jsval \<Rightarrow> jsval \<Rightarrow> Method \<Rightarrow> bool" where
  "raiseIntent_filter intent' target m =
     (if length (Method.intent m) > 0
      then raiseIntent_intents intent' target m (Method.intent m)
      else False)"

text \<open>
  The \<^verbatim>\<open>for (const platform of this.platforms)\<close> loop. Every path through its body ends
  in a \<^verbatim>\<open>throw\<close> or a \<^verbatim>\<open>return\<close>, so there is no second iteration; when the list is
  empty the function falls off its end and the promise resolves with \<^verbatim>\<open>undefined\<close>.
\<close>

fun raiseIntent_platforms ::
  "jsval \<Rightarrow> jsval \<Rightarrow> jsval \<Rightarrow> Platform list \<Rightarrow> event list \<Rightarrow> (thrown + jsval) \<times> event list" where
  \<open>raiseIntent_platforms intent' context' target [] tr = (Inr JUndefined, tr)\<close>
| \<open>raiseIntent_platforms intent' context' target (p # ps) tr =
     (case discoverMethods (platformApi p) tr of
        Inl e \<Rightarrow> (Inl e, tr @ [DiscoverMethods (Platform.name p)])
      | Inr methods \<Rightarrow>
          (let methodsWithIntent = filter (raiseIntent_filter intent' target) methods;
               tr1 = tr @ [DiscoverMethods (Platform.name p)]
           in if length methodsWithIntent = 0
              then (Inl (Error (''There is no method with intent "'' @ asString intent' @ ''"'')),
                    tr1)
              else if length methodsWithIntent > 1
              then (Inl (Error (''There are multiple applications with method with intent "''
                                  @ asString intent' @ ''"'')), tr1)
              else (case invoke (platformApi p) tr1 (ByMethod (methodsWithIntent ! 0)) context' of
                      Inl e \<Rightarrow>
                        (Inl e, tr1 @ [Invoke (Platform.name p)
                                         (ByMethod (methodsWithIntent ! 0)) context'])
                    | Inr invokeResult \<Rightarrow>
                        (Inr (result invokeResult),
                         tr1 @ [Invoke (Platform.name p)
                                  (ByMethod (methodsWithIntent ! 0)) context']))))\<close>

definition raiseIntent ::
  "Fdc3Impl \<Rightarrow> jsval \<Rightarrow> jsval \<Rightarrow> jsval \<Rightarrow> event list \<Rightarrow> (thrown + jsval) \<times> event list" where
  "raiseIntent fdc3 intent' context' target tr =
     (case validateRaiseIntent intent' context' target of
        Inl e \<Rightarrow> (Inl e, tr)
      | Inr u \<Rightarrow> raiseIntent_platforms intent' context' target (platforms fdc3) tr)"

subsection \<open>broadcast\<close>






subsection \<open>addIntentListener, addContextListener\<close>

text \<open>
  Modelled from the spec: the callback registry of the \<^verbatim>\<open>callback-registry\<close> package, a
  collaborator outside the sources: the callbacks added under each channel, and an
  unsubscribe function per addition that removes that callback. A \<open>Listener\<close> is its
  \<^verbatim>\<open>unsubscribe\<close>, a change of the registry.
\<close>

type_synonym registry = "(string \<times> jsval) list"

record Listener =
  unsubscribe :: "registry \<Rightarrow> registry"

definition registry_add :: "string \<Rightarrow> jsval \<Rightarrow> registry \<Rightarrow> (registry \<Rightarrow> registry) \<times> registry" where
  "registry_add key handler reg = (remove1 (key, handler), reg @ [(key, handler)])"

text \<open>
  The loops over the platforms: \<^verbatim>\<open>onMethodRegistered\<close> installs a hook and
  \<^verbatim>\<open>register\<close> exposes the context-listener method; both are remote calls that return
  nothing.
\<close>

definition addIntentListener ::
  "Fdc3Impl \<Rightarrow> jsval \<Rightarrow> jsval \<Rightarrow> registry \<Rightarrow> event list
    \<Rightarrow> (thrown + Listener) \<times> registry \<times> event list" where
  "addIntentListener fdc3 intent' handler reg tr =
     (case validateAddIntentListener intent' handler of
        Inl e \<Rightarrow> (Inl e, reg, tr)
      | Inr u \<Rightarrow>
          (case registry_add ''add-intent'' handler reg of
             (unsubscribeFunction, reg') \<Rightarrow>
               (Inr \<lparr>unsubscribe = unsubscribeFunction\<rparr>, reg',
                tr @ map (\<lambda>p. OnMethodRegistered (Platform.name p)) (platforms fdc3))))"

definition addContextListener ::
  "Fdc3Impl \<Rightarrow> jsval \<Rightarrow> registry \<Rightarrow> event list
    \<Rightarrow> (thrown + Listener) \<times> registry \<times> event list" where
  \<open>addContextListener fdc3 handler reg tr =
     (if \<not> truthy handler then (Inl (Error ''Handler is mandatory parameter''), reg, tr)
      else if typeof handler \<noteq> ''function''
        then (Inl (Error ''Handler must be of type "function"''), reg, tr)
      else (case registry_add ''add-context'' handler reg of
              (unsubscribeFunction, reg') \<Rightarrow>
                (Inr \<lparr>unsubscribe = unsubscribeFunction\<rparr>, reg',
                 tr @ map (\<lambda>p. Register (Platform.name p)
                                  (''Fdc3.'' @ Platform.name p @ ''.ContextListener''))
                        (platforms fdc3))))\<close>

subsection \<open>open\<close>

definition getPlatformName :: "string \<Rightarrow> string option" where
  "getPlatformName app =
     (let splitAppName = split_str CHR '':'' app
      in if length splitAppName > 1 then Some (last splitAppName) else None)"

definition getApplicationName :: "string \<Rightarrow> string" where
  "getApplicationName app =
     (let splitAppName = split_str CHR '':'' app
      in if length splitAppName > 1 then join_str '':'' (butlast splitAppName) else app)"

text \<open>\<^verbatim>\<open>if (platformName)\<close>: \<^verbatim>\<open>null\<close> and the empty string are falsy.\<close>

fun truthyName :: "string option \<Rightarrow> bool" where
  "truthyName None = False"
| "truthyName (Some n) = (n \<noteq> [])"

definition getUniquePlatform :: "Fdc3Impl \<Rightarrow> string \<Rightarrow> thrown + Platform" where
  \<open>getUniquePlatform fdc3 platformName =
     (let fdc3Platforms = filter (\<lambda>fdc3Platform. Platform.name fdc3Platform = platformName)
                            (platforms fdc3)
      in if length fdc3Platforms = 0
         then Inl (Error (''There is no platform named "'' @ platformName @ ''"''))
         else if length fdc3Platforms > 1
         then Inl (Error (''There are multiple platforms named "'' @ platformName @ ''"''))
         else Inr (fdc3Platforms ! 0))\<close>

definition platformHasMethod :: "Platform \<Rightarrow> Method list \<Rightarrow> string \<Rightarrow> bool" where
  "platformHasMethod p platformMethods methodName =
     (let methodFullName = ''Fdc3.'' @ Platform.name p @ ''.'' @ methodName
      in length (filter (\<lambda>m. Method.name m = methodFullName) platformMethods) > 0)"

text \<open>
  \<^verbatim>\<open>platformApplications.filter(application => application.name === app)\<close> on the
  payload of the invocation, which is declared \<^verbatim>\<open>Application[]\<close> and arrives as a value:
  on anything but an array the call of \<^verbatim>\<open>filter\<close> raises a TypeError, and so does the read
  of \<^verbatim>\<open>name\<close> from an element that is \<^verbatim>\<open>undefined\<close> or \<^verbatim>\<open>null\<close>. Both are outside
  the \<^verbatim>\<open>try\<close>.
\<close>

fun filterByName :: "string \<Rightarrow> jsval list \<Rightarrow> thrown + jsval list" where
  "filterByName app [] = Inr []"
| "filterByName app (a # rest) =
     (if a = JUndefined then Inl (TypeError ''Cannot read properties of undefined'')
      else if a = JNull then Inl (TypeError ''Cannot read properties of null'')
      else (case filterByName app rest of
              Inl e \<Rightarrow> Inl e
            | Inr l \<Rightarrow> Inr (if getProp a ''name'' = JStr app then a # l else l)))"

definition providedAppList :: "jsval \<Rightarrow> string \<Rightarrow> thrown + jsval list" where
  "providedAppList platformApplications app =
     (case platformApplications of
        JArr applications \<Rightarrow> filterByName app applications
      | JUndefined \<Rightarrow> Inl (TypeError ''Cannot read properties of undefined'')
      | JNull \<Rightarrow> Inl (TypeError ''Cannot read properties of null'')
      | v \<Rightarrow> Inl (TypeError ''platformApplications.filter is not a function''))"

definition platformHasProvidedApp ::
  "Platform \<Rightarrow> string \<Rightarrow> event list \<Rightarrow> (thrown + bool) \<times> event list" where
  "platformHasProvidedApp p app tr =
     (let listApplicationsMethodName = ''Fdc3.'' @ Platform.name p @ ''.ListApplications'';
          tr1 = tr @ [Invoke (Platform.name p) (ByName listApplicationsMethodName) JUndefined]
      in case invoke (platformApi p) tr (ByName listApplicationsMethodName) JUndefined of
           Inl e \<Rightarrow> (Inr False, tr1)
         | Inr listApplicationsInvocation \<Rightarrow>
             (case providedAppList (result listApplicationsInvocation) app of
                Inl e \<Rightarrow> (Inl e, tr1)
              | Inr l \<Rightarrow>
                  if length l > 1
                  then (Inl (Error (''There are multiple applications named '' @ [CHR 0x27]
                                      @ app @ [CHR 0x27] @ ''.'')), tr1)
                  else (Inr (length l = 1), tr1)))"

text \<open>The three loops of the unqualified branch of \<^verbatim>\<open>getPlatform\<close>.\<close>

fun platformsSupportingListApplicationsMethod ::
  "Platform list \<Rightarrow> Platform list \<Rightarrow> event list \<Rightarrow> (thrown + Platform list) \<times> event list" where
  "platformsSupportingListApplicationsMethod [] acc tr = (Inr acc, tr)"
| "platformsSupportingListApplicationsMethod (p # ps) acc tr =
     (case discoverMethods (platformApi p) tr of
        Inl e \<Rightarrow> (Inl e, tr @ [DiscoverMethods (Platform.name p)])
      | Inr platformMethods \<Rightarrow>
          platformsSupportingListApplicationsMethod ps
            (if platformHasMethod p platformMethods ''ListApplications'' then acc @ [p] else acc)
            (tr @ [DiscoverMethods (Platform.name p)]))"

fun platformsWithProvidedApp ::
  "string \<Rightarrow> Platform list \<Rightarrow> Platform list \<Rightarrow> event list
    \<Rightarrow> (thrown + Platform list) \<times> event list" where
  "platformsWithProvidedApp appName [] acc tr = (Inr acc, tr)"
| "platformsWithProvidedApp appName (p # ps) acc tr =
     (case platformHasProvidedApp p appName tr of
        (Inl e, tr') \<Rightarrow> (Inl e, tr')
      | (Inr hasProvidedApp, tr') \<Rightarrow>
          platformsWithProvidedApp appName ps (if hasProvidedApp then acc @ [p] else acc) tr')"

fun platformsSupportingStartApplicationMethod ::
  "Platform list \<Rightarrow> Platform list \<Rightarrow> event list \<Rightarrow> (thrown + Platform list) \<times> event list" where
  "platformsSupportingStartApplicationMethod [] acc tr = (Inr acc, tr)"
| "platformsSupportingStartApplicationMethod (p # ps) acc tr =
     (case discoverMethods (platformApi p) tr of
        Inl e \<Rightarrow> (Inl e, tr @ [DiscoverMethods (Platform.name p)])
      | Inr platformMethods \<Rightarrow>
          platformsSupportingStartApplicationMethod ps
            (if platformHasMethod p platformMethods ''StartApplication'' then acc @ [p] else acc)
            (tr @ [DiscoverMethods (Platform.name p)]))"

text \<open>
  \<^verbatim>\<open>getPlatform\<close> returns \<^verbatim>\<open>platformsSupportingStartApplicationMethod[0]\<close>, which is
  \<^verbatim>\<open>undefined\<close> (here \<open>None\<close>) when that list is empty. Its one read of
  \<^verbatim>\<open>this.defaultErrorMessage\<close>, in the branch of a qualified name, comes before any
  suspension, in the run in which \<^verbatim>\<open>open\<close> has written the field: it is the message of
  the calling \<^verbatim>\<open>open\<close>, given as an argument.
\<close>

definition getPlatform ::
  "Fdc3Impl \<Rightarrow> string \<Rightarrow> string \<Rightarrow> string option \<Rightarrow> event list
    \<Rightarrow> (thrown + Platform option) \<times> event list" where
  "getPlatform fdc3 defaultErrorMessage appName platformName tr =
     (if truthyName platformName
      then (case getUniquePlatform fdc3 (the platformName) of
              Inl error \<Rightarrow> (Inl (Error (message_or error defaultErrorMessage)), tr)
            | Inr p \<Rightarrow> (Inr (Some p), tr))
      else
        (case platformsSupportingListApplicationsMethod (platforms fdc3) [] tr of
           (Inl e, tr1) \<Rightarrow> (Inl e, tr1)
         | (Inr supportingListApplications, tr1) \<Rightarrow>
             (case platformsWithProvidedApp appName supportingListApplications [] tr1 of
                (Inl e, tr2) \<Rightarrow> (Inl e, tr2)
              | (Inr withProvidedApp, tr2) \<Rightarrow>
                  if length withProvidedApp = 0
                  then (Inl (Error (''There are no platforms with application named ''
                                      @ [CHR 0x27] @ appName @ [CHR 0x27] @ ''.'')), tr2)
                  else if length withProvidedApp > 1
                  then (Inl (Error (''There are multiple platforms with application named ''
                                      @ [CHR 0x27] @ appName @ [CHR 0x27] @ ''.'')), tr2)
                  else
                    (case platformsSupportingStartApplicationMethod withProvidedApp [] tr2 of
                       (Inl e, tr3) \<Rightarrow> (Inl e, tr3)
                     | (Inr supportingStartApplication, tr3) \<Rightarrow>
                         (case supportingStartApplication of
                            [] \<Rightarrow> (Inr None, tr3)
                          | p # rest \<Rightarrow> (Inr (Some p), tr3))))))"

text \<open>
  \<^verbatim>\<open>open\<close>. The read \<^verbatim>\<open>platform.name\<close> that builds the method name stands between the
  two \<^verbatim>\<open>try\<close> blocks: when \<^verbatim>\<open>getPlatform\<close> has resolved with \<^verbatim>\<open>undefined\<close> it raises
  a TypeError that no \<^verbatim>\<open>catch\<close> rewrites. The two \<^verbatim>\<open>catch\<close> blocks read
  \<^verbatim>\<open>this.defaultErrorMessage\<close> after the suspension on \<^verbatim>\<open>getPlatform\<close> and on
  \<^verbatim>\<open>invoke\<close>, when other calls may have overwritten it.
\<close>

definition "open" ::
  "Fdc3Impl \<Rightarrow> jsval \<Rightarrow> jsval \<Rightarrow> (event list \<Rightarrow> string option) \<Rightarrow> event list
    \<Rightarrow> (thrown + jsval) \<times> event list" where
  \<open>open fdc3 app context' others tr =
     (case validateOpenParams app context' of
        Inl e \<Rightarrow> (Inl e, tr)
      | Inr u \<Rightarrow>
          (let platformName = getPlatformName (asString app);
               appName = (if truthyName platformName then getApplicationName (asString app)
                          else asString app);
               own = ''Unable to start application named "'' @ appName @ ''"''
           in case (if truthyName platformName
                    then getPlatform fdc3 own appName platformName tr
                    else getPlatform fdc3 own (asString app) None tr) of
                (Inl error, tr1) \<Rightarrow>
                  (Inl (Error (message_or error (defaultErrorMessageAt own others tr1))), tr1)
              | (Inr None, tr1) \<Rightarrow>
                  (Inl (TypeError ''Cannot read properties of undefined''), tr1)
              | (Inr (Some p), tr1) \<Rightarrow>
                  (let args = JObj [(''application'', JStr appName), (''context'', context')];
                       methodName = ''Fdc3.'' @ Platform.name p @ ''.StartApplication'';
                       tr2 = tr1 @ [Invoke (Platform.name p) (ByName methodName) args]
                   in case invoke (platformApi p) tr1 (ByName methodName) args of
                        Inl error \<Rightarrow>
                          (Inl (Error (defaultErrorMessageAt own others tr2)), tr2)
                      | Inr startInvokeResult \<Rightarrow>
                          (Inr (result startInvokeResult), tr2))))\<close>

section \<open>Fdc3Bus: construction\<close>

text \<open>
  \<^verbatim>\<open>Utils.connectUntilReady\<close>: a timer calls \<^verbatim>\<open>connect\<close> at every tick until a call
  succeeds, and no tick is the last. \<open>fuel\<close> is the number of ticks waited for; \<open>None\<close>
  is a promise still pending after them. Each attempt is taken to settle before the next
  tick. The application name given to \<^verbatim>\<open>connect\<close> is the configured one, or
  \<^verbatim>\<open>Fdc3.<type>.Impl\<close>.
\<close>

definition applicationNameOf :: "InteropPlatform \<Rightarrow> string" where
  "applicationNameOf interopPlatform =
     (case application interopPlatform of
        Some a \<Rightarrow> a
      | None \<Rightarrow> ''Fdc3.'' @ type interopPlatform @ ''.Impl'')"

fun connectUntilReady ::
  "nat \<Rightarrow> nat \<Rightarrow> InteropPlatform \<Rightarrow> MethodImplementation list \<Rightarrow> event list
    \<Rightarrow> InteropPeer option \<times> event list" where
  "connectUntilReady 0 k interopPlatform methods tr = (None, tr)"
| "connectUntilReady (Suc fuel) k interopPlatform methods tr =
     (let tr1 = tr @ [Connect (type interopPlatform) (applicationNameOf interopPlatform)]
      in case connect interopPlatform k (applicationNameOf interopPlatform) methods of
           Inr interopPeer \<Rightarrow> (Some interopPeer, tr1)
         | Inl e \<Rightarrow> connectUntilReady fuel (Suc k) interopPlatform methods tr1)"

text \<open>
  \<^verbatim>\<open>Promise.all\<close> over the connections, which run side by side; their attempts are
  listed platform by platform. The result is pending while any connection is.
\<close>

fun interopPeers ::
  "nat \<Rightarrow> InteropPlatform list \<Rightarrow> MethodImplementation list \<Rightarrow> event list
    \<Rightarrow> InteropPeer list option \<times> event list" where
  "interopPeers fuel [] methods tr = (Some [], tr)"
| "interopPeers fuel (interopPlatform # rest) methods tr =
     (case connectUntilReady fuel 0 interopPlatform methods tr of
        (r, tr1) \<Rightarrow>
          (case interopPeers fuel rest methods tr1 of
             (rs, tr2) \<Rightarrow>
               ((case r of
                   None \<Rightarrow> None
                 | Some interopPeer \<Rightarrow>
                     (case rs of None \<Rightarrow> None | Some peers \<Rightarrow> Some (interopPeer # peers))),
                tr2)))"

definition interopPlatformsToPlatforms ::
  "nat \<Rightarrow> InteropPlatform list \<Rightarrow> MethodImplementation list \<Rightarrow> event list
    \<Rightarrow> Platform list option \<times> event list" where
  "interopPlatformsToPlatforms fuel interopPlatforms methods tr =
     (case interopPeers fuel interopPlatforms methods tr of
        (None, tr') \<Rightarrow> (None, tr')
      | (Some peers, tr') \<Rightarrow>
          (Some (map (\<lambda>(interopPeer, interopPlatform).
                        \<lparr>Platform.name = type interopPlatform,
                         version = InteropPlatform.version interopPlatform,
                         online = isConnected interopPeer,
                         connectionStatus = InteropPeer.connectionStatus interopPeer,
                         config = [],
                         platformApi = interopPeer\<rparr>)
                   (zip peers interopPlatforms)), tr'))"

definition Fdc3Bus ::
  "nat \<Rightarrow> InteropPlatform list \<Rightarrow> MethodImplementation list \<Rightarrow> event list
    \<Rightarrow> (thrown + Fdc3Impl) option \<times> event list" where
  "Fdc3Bus fuel interopPlatforms methods tr =
     (let interopPlatformNames = map type interopPlatforms
      in if length interopPlatformNames \<noteq> card (set interopPlatformNames)
         then (Some (Inl (Error ''Multiple platforms have the same type.'')), tr)
         else (case interopPlatformsToPlatforms fuel interopPlatforms methods tr of
                 (None, tr') \<Rightarrow> (None, tr')
               | (Some ps, tr') \<Rightarrow> (Some (Inr \<lparr>platforms = ps\<rparr>), tr')))"

section \<open>Vocabulary of the properties\<close>

subsection \<open>Arguments\<close>

text \<open>
  What the validators accept, said of the argument itself: a string that is not empty; a
  context that is falsy (taken as absent) or an object with a non-empty string \<^verbatim>\<open>type\<close>
  and a \<^verbatim>\<open>name\<close> that is falsy or a string; a target that is falsy or a string; a handler
  that is a function.
\<close>

fun isNonEmptyString :: "jsval \<Rightarrow> bool" where
  "isNonEmptyString (JStr s) = (s \<noteq> [])"
| "isNonEmptyString v = False"

fun isString :: "jsval \<Rightarrow> bool" where
  "isString (JStr s) = True"
| "isString v = False"

fun isFunction :: "jsval \<Rightarrow> bool" where
  "isFunction (JFun f) = True"
| "isFunction v = False"

definition malformedContext :: "jsval \<Rightarrow> bool" where
  "malformedContext c =
     (truthy c \<and>
      (typeof c \<noteq> ''object'' \<or> \<not> isNonEmptyString (getProp c ''type'') \<or>
       (truthy (getProp c ''name'') \<and> \<not> isString (getProp c ''name''))))"

definition malformedTarget :: "jsval \<Rightarrow> bool" where
  "malformedTarget t = (truthy t \<and> \<not> isString t)"

text \<open>The messages of the errors that \<^verbatim>\<open>utils.ts\<close> and \<^verbatim>\<open>addContextListener\<close> raise.\<close>

definition validationMessages :: "string list" where
  \<open>validationMessages =
     [''Context must be of type "object"'', ''Context type is mandatory parameter'',
      ''Context type must be of type "string"'', ''Context name must be of type "string"'',
      ''App is mandatory parameter'', ''App must be of type "string"'',
      ''Intent is mandatory parameter'', ''Intent must be of type "string"'',
      ''Target must be of type "string"'', ''Handler is mandatory parameter'',
      ''Handler must be of type "function"'']\<close>

definition isValidationError :: "thrown \<Rightarrow> bool" where
  "isValidationError e =
     (case e of Error m \<Rightarrow> m \<in> set validationMessages | TypeError m \<Rightarrow> False)"

subsection \<open>Discovery\<close>

text \<open>
  The answer each platform gives to \<^verbatim>\<open>discoverMethods\<close> when the platforms are asked one
  after the other, starting from the calls \<open>tr\<close>.
\<close>

fun discoveries :: "Platform list \<Rightarrow> event list \<Rightarrow> (thrown + Method list) list" where
  "discoveries [] tr = []"
| "discoveries (p # ps) tr =
     discoverMethods (platformApi p) tr
       # discoveries ps (tr @ [DiscoverMethods (Platform.name p)])"

text \<open>
  No object inside the value has a callable \<^verbatim>\<open>toJSON\<close>; and the contexts that the
  discovered methods declare.
\<close>

primrec noToJSON :: "jsval \<Rightarrow> bool" where
  "noToJSON JUndefined = True"
| "noToJSON JNull = True"
| "noToJSON (JBool b) = True"
| "noToJSON (JNum n) = True"
| "noToJSON (JStr s) = True"
| "noToJSON (JArr xs) = list_all (\<lambda>b. b) (map noToJSON xs)"
| "noToJSON (JObj kvs) =
     (\<not> isFunction (case map_of kvs ''toJSON'' of None \<Rightarrow> JUndefined | Some v \<Rightarrow> v) \<and>
      list_all snd (map (map_prod id noToJSON) kvs))"
| "noToJSON (JFun f) = True"

definition declaredContexts :: "Method list list \<Rightarrow> jsval list" where
  "declaredContexts mss = [context mi. ms \<leftarrow> mss, m \<leftarrow> ms, mi \<leftarrow> Method.intent m]"

text \<open>The test that \<^verbatim>\<open>findIntent\<close> applies to a declared intent.\<close>

definition keeps :: "jsval \<Rightarrow> jsval \<Rightarrow> MethodIntent \<Rightarrow> bool" where
  "keeps i c mi \<longleftrightarrow>
     JStr (MethodIntent.name mi) = i \<and>
     (\<not> truthy c \<or> JSON_stringify c = JSON_stringify (context mi))"

subsection \<open>Grouping by intent name\<close>

text \<open>
  The matches of a context among discovered methods, as pairs of intent name and owning
  application, in platform, method and declaration order; the names of a list in the order
  of their first occurrence; and the grouping that the claim describes: one entry per name,
  in first-seen order, listing the applications of that name's matches in order.
\<close>

definition matchesFor :: "jsval \<Rightarrow> Method list list \<Rightarrow> (string \<times> string) list" where
  "matchesFor c mss =
     [(MethodIntent.name mi, applicationName (peer m)).
        ms \<leftarrow> mss, m \<leftarrow> ms, mi \<leftarrow> Method.intent m,
        JSON_stringify (context mi) = JSON_stringify c]"

definition firstSeen :: "'a list \<Rightarrow> 'a list" where
  "firstSeen xs = rev (remdups (rev xs))"

definition appIntentFor :: "(string \<times> string) list \<Rightarrow> string \<Rightarrow> AppIntent" where
  "appIntentFor matches n =
     \<lparr>intent = \<lparr>IntentMetadata.name = n, displayName = n\<rparr>,
      apps = [\<lparr>AppMetadata.name = a\<rparr>. (n', a) \<leftarrow> matches, n' = n]\<rparr>"

definition groupByIntent :: "(string \<times> string) list \<Rightarrow> AppIntent list" where
  "groupByIntent matches = map (appIntentFor matches) (firstSeen (map fst matches))"

text \<open>One turn of the innermost loop of \<^verbatim>\<open>findIntentsByContext\<close> on a match.\<close>

definition pushMatch :: "AppIntent list \<Rightarrow> string \<Rightarrow> string \<Rightarrow> AppIntent list" where
  "pushMatch appIntents n a =
     (case pushToFound n \<lparr>AppMetadata.name = a\<rparr> appIntents of
        Some appIntents' \<Rightarrow> appIntents'
      | None \<Rightarrow>
          appIntents @ [\<lparr>intent = \<lparr>IntentMetadata.name = n, displayName = n\<rparr>,
                         apps = [\<lparr>AppMetadata.name = a\<rparr>]\<rparr>])"

subsection \<open>Connection\<close>

text \<open>The connection attempt at tick \<open>k\<close> succeeds.\<close>

definition readyAt :: "InteropPlatform \<Rightarrow> MethodImplementation list \<Rightarrow> nat \<Rightarrow> bool" where
  "readyAt ip methods k = (\<not> isl (connect ip k (applicationNameOf ip) methods))"

subsection \<open>Resolution of an application\<close>

text \<open>
  A platform is steady when its answers do not depend on the calls made before. For a steady
  platform: whether a method of the capability's full name is among its methods; its
  application list, which is empty when the listing call rejects and is none when the
  payload is not an array or holds \<^verbatim>\<open>undefined\<close> or \<^verbatim>\<open>null\<close>; the number of entries
  of that list whose \<^verbatim>\<open>name\<close> is the application's; and from these the candidate
  platforms, which expose \<^verbatim>\<open>ListApplications\<close>, and the candidates that list the
  application exactly once.
\<close>

definition steady :: "Platform \<Rightarrow> bool" where
  "steady p \<longleftrightarrow>
     (\<forall>h. discoverMethods (platformApi p) h = discoverMethods (platformApi p) [] \<and>
          invoke (platformApi p) h = invoke (platformApi p) [])"

definition exposes :: "Platform \<Rightarrow> string \<Rightarrow> bool" where
  "exposes p methodName =
     (case discoverMethods (platformApi p) [] of
        Inr ms \<Rightarrow> (\<exists>m \<in> set ms. Method.name m = ''Fdc3.'' @ Platform.name p @ ''.'' @ methodName)
      | Inl e \<Rightarrow> False)"

definition listApplicationsCall :: "Platform \<Rightarrow> event" where
  "listApplicationsCall p =
     Invoke (Platform.name p) (ByName (''Fdc3.'' @ Platform.name p @ ''.ListApplications''))
       JUndefined"

definition applicationList :: "Platform \<Rightarrow> jsval list option" where
  "applicationList p =
     (case invoke (platformApi p) []
             (ByName (''Fdc3.'' @ Platform.name p @ ''.ListApplications'')) JUndefined of
        Inl e \<Rightarrow> Some []
      | Inr r \<Rightarrow>
          (case result r of
             JArr xs \<Rightarrow> if JUndefined \<in> set xs \<or> JNull \<in> set xs then None else Some xs
           | v \<Rightarrow> None))"

definition timesListed :: "Platform \<Rightarrow> string \<Rightarrow> nat option" where
  "timesListed p app =
     (case applicationList p of
        None \<Rightarrow> None
      | Some xs \<Rightarrow> Some (length [a \<leftarrow> xs. getProp a ''name'' = JStr app]))"

definition listsOnce :: "Platform \<Rightarrow> string \<Rightarrow> bool" where
  "listsOnce p app = (timesListed p app = Some 1)"

definition listsAtMostOnce :: "Platform \<Rightarrow> string \<Rightarrow> bool" where
  "listsAtMostOnce p app = (timesListed p app = Some 0 \<or> timesListed p app = Some 1)"

definition candidatePlatforms :: "Fdc3Impl \<Rightarrow> Platform list" where
  "candidatePlatforms fdc3 = filter (\<lambda>p. exposes p ''ListApplications'') (platforms fdc3)"

definition platformsListing :: "Fdc3Impl \<Rightarrow> string \<Rightarrow> Platform list" where
  "platformsListing fdc3 app = filter (\<lambda>p. listsOnce p app) (candidatePlatforms fdc3)"

text \<open>
  The remote calls of the resolution: one discovery per platform, then one listing per
  candidate. Then the start call, and its outcome for the caller: the payload when the
  invocation resolves, an error of the given message when it rejects.
\<close>

definition resolutionCalls :: "Fdc3Impl \<Rightarrow> event list" where
  "resolutionCalls fdc3 =
     map (\<lambda>p. DiscoverMethods (Platform.name p)) (platforms fdc3) @
     map listApplicationsCall (candidatePlatforms fdc3)"

definition startCall :: "Platform \<Rightarrow> string \<Rightarrow> jsval \<Rightarrow> event" where
  "startCall p app c =
     Invoke (Platform.name p) (ByName (''Fdc3.'' @ Platform.name p @ ''.StartApplication''))
       (JObj [(''application'', JStr app), (''context'', c)])"

definition startOutcome :: "Platform \<Rightarrow> string \<Rightarrow> jsval \<Rightarrow> string \<Rightarrow> thrown + jsval" where
  "startOutcome p app c failureMessage =
     (case invoke (platformApi p) []
             (ByName (''Fdc3.'' @ Platform.name p @ ''.StartApplication''))
             (JObj [(''application'', JStr app), (''context'', c)]) of
        Inl e \<Rightarrow> Inl (Error failureMessage)
      | Inr r \<Rightarrow> Inr (result r))"

text \<open>The message that a call of \<^verbatim>\<open>open\<close> for an application writes to the field.\<close>

definition unableToStart :: "string \<Rightarrow> string" where
  \<open>unableToStart appName = ''Unable to start application named "'' @ appName @ ''"''\<close>

section \<open>Example platforms\<close>

text \<open>
  A contact context; peers that always give the same answers; methods that declare one
  intent or none; an engine over platform A, whose application Phone serves the intent Call,
  and platform B, whose Dialer serves Call and whose Messenger serves Chat, all for the
  contact context; and an engine whose first platform has no method while its second
  serves Call.
\<close>

definition contactProperties :: "(string \<times> jsval) list" where
  "contactProperties = [(''type'', JStr ''fdc3.contact''), (''name'', JStr ''Ann'')]"

definition contactContext :: jsval where
  "contactContext = JObj contactProperties"

definition answering ::
  "(thrown + Method list) \<Rightarrow> (invokeTarget \<Rightarrow> thrown + InvocationResult) \<Rightarrow> InteropPeer" where
  "answering ms reply =
     \<lparr>isConnected = True, InteropPeer.connectionStatus = JStr ''connected'',
      discoverMethods = (\<lambda>tr. ms), invoke = (\<lambda>tr target args. reply target)\<rparr>"

definition platformNamed :: "string \<Rightarrow> InteropPeer \<Rightarrow> Platform" where
  "platformNamed n api =
     \<lparr>Platform.name = n, version = ''1'', online = True, connectionStatus = JStr ''connected'',
      config = [], platformApi = api\<rparr>"

definition intentMethod :: "string \<Rightarrow> string \<Rightarrow> jsval \<Rightarrow> string \<Rightarrow> Method" where
  "intentMethod n i c a =
     \<lparr>Method.name = n, intent = [\<lparr>MethodIntent.name = i, context = c\<rparr>],
      peer = \<lparr>applicationName = a\<rparr>\<rparr>"

definition plainMethod :: "string \<Rightarrow> string \<Rightarrow> Method" where
  "plainMethod n a = \<lparr>Method.name = n, intent = [], peer = \<lparr>applicationName = a\<rparr>\<rparr>"

definition replied :: "invokeTarget \<Rightarrow> thrown + InvocationResult" where
  "replied target = Inr \<lparr>result = JStr ''done''\<rparr>"


definition callChatEngine :: Fdc3Impl where
  "callChatEngine =
     \<lparr>platforms =
        [platformNamed ''A''
           (answering (Inr [intentMethod ''StartCall'' ''Call'' contactContext ''Phone''])
              replied),
         platformNamed ''B''
           (answering
              (Inr [intentMethod ''StartCall'' ''Call'' contactContext ''Dialer'',
                    intentMethod ''StartChat'' ''Chat'' contactContext ''Messenger''])
              replied)]\<rparr>"

definition emptyThenCallEngine :: Fdc3Impl where
  "emptyThenCallEngine =
     \<lparr>platforms =
        [platformNamed ''A'' (answering (Inr []) replied),
         platformNamed ''B''
           (answering (Inr [intentMethod ''StartCall'' ''Call'' contactContext ''Phone''])
              replied)]\<rparr>"



text \<open>
  A platform that exposes the given capabilities and lists the given applications: its
  \<^verbatim>\<open>ListApplications\<close> resolves to the list, any other invocation to \<^verbatim>\<open>started\<close>.
\<close>

definition launcher :: "string \<Rightarrow> string list \<Rightarrow> string list \<Rightarrow> Platform" where
  "launcher n capabilities listing =
     platformNamed n
       (answering
          (Inr (map (\<lambda>c. plainMethod (''Fdc3.'' @ n @ ''.'' @ c) (''Fdc3.'' @ n @ ''.Impl''))
                  capabilities))
          (\<lambda>target.
             if target = ByName (''Fdc3.'' @ n @ ''.ListApplications'')
             then Inr \<lparr>result = JArr (map (\<lambda>a. JObj [(''name'', JStr a)]) listing)\<rparr>
             else Inr \<lparr>result = JStr ''started''\<rparr>))"

definition fullLauncher :: "string \<Rightarrow> string list \<Rightarrow> Platform" where
  "fullLauncher n listing = launcher n [''ListApplications'', ''StartApplication''] listing"

text \<open>A platform with both capabilities whose start call, like any call but the listing, rejects.\<close>

definition refusingLauncher :: "string \<Rightarrow> string list \<Rightarrow> Platform" where
  "refusingLauncher n listing =
     platformNamed n
       (answering
          (Inr (map (\<lambda>c. plainMethod (''Fdc3.'' @ n @ ''.'' @ c) (''Fdc3.'' @ n @ ''.Impl''))
                  [''ListApplications'', ''StartApplication'']))
          (\<lambda>target.
             if target = ByName (''Fdc3.'' @ n @ ''.ListApplications'')
             then Inr \<lparr>result = JArr (map (\<lambda>a. JObj [(''name'', JStr a)]) listing)\<rparr>
             else Inl (Error ''busy'')))"

text \<open>
  Connection descriptors: one that is ready at the given tick and not before, one that is
  never ready.
\<close>

definition readyFrom :: "string \<Rightarrow> nat \<Rightarrow> InteropPlatform" where
  "readyFrom t n =
     \<lparr>type = t, InteropPlatform.version = ''1'', application = None,
      connect = (\<lambda>k a ms. if k < n then Inl (Error ''not ready'')
                          else Inr (answering (Inr []) replied))\<rparr>"

definition unreachablePlatform :: InteropPlatform where
  "unreachablePlatform =
     \<lparr>type = ''glue'', InteropPlatform.version = ''1'', application = None,
      connect = (\<lambda>k a ms. Inl (Error ''not ready''))\<rparr>"

section \<open>Properties\<close>

lemmas example_defs = contactProperties_def contactContext_def answering_def platformNamed_def
  intentMethod_def plainMethod_def replied_def callChatEngine_def

subsection \<open>What the validators accept\<close>

lemma typeof_string_iff: "typeof v = ''string'' \<longleftrightarrow> isString v"
  by (cases v) auto

lemma typeof_function_iff: "typeof v = ''function'' \<longleftrightarrow> isFunction v"
  by (cases v) auto

lemma isNonEmptyString_iff: "isNonEmptyString v \<longleftrightarrow> truthy v \<and> typeof v = ''string''"
  by (cases v) auto

lemma validateContext_accepts: "validateContext c = Inr () \<longleftrightarrow> \<not> malformedContext c"
  by (auto simp: validateContext_def malformedContext_def isNonEmptyString_iff typeof_string_iff)

lemma validateContext_error: "validateContext c = Inl e \<Longrightarrow> isValidationError e"
  by (auto simp: validateContext_def isValidationError_def validationMessages_def split: if_splits)

lemma validateIntent_accepts: "validateIntent v = Inr () \<longleftrightarrow> isNonEmptyString v"
  by (auto simp: validateIntent_def isNonEmptyString_iff)

lemma validateIntent_error: "validateIntent v = Inl e \<Longrightarrow> isValidationError e"
  by (auto simp: validateIntent_def isValidationError_def validationMessages_def split: if_splits)

lemma validateOpenParams_accepts:
  "validateOpenParams app c = Inr () \<longleftrightarrow> isNonEmptyString app \<and> \<not> malformedContext c"
  using validateContext_accepts [of c]
  by (auto simp: validateOpenParams_def isNonEmptyString_iff split: sum.splits)

lemma validateOpenParams_error: "validateOpenParams app c = Inl e \<Longrightarrow> isValidationError e"
proof -
  assume a: "validateOpenParams app c = Inl e"
  show ?thesis
  proof (cases "validateContext c")
    case (Inl x)
    from validateContext_error [OF Inl] obtain m where "x = Error m" "m \<in> set validationMessages"
      by (auto simp: isValidationError_def split: thrown.splits)
    with a Inl show ?thesis
      by (auto simp: validateOpenParams_def isValidationError_def validationMessages_def
            split: if_splits)
  next
    case (Inr u)
    with a show ?thesis
      by (auto simp: validateOpenParams_def isValidationError_def validationMessages_def
            split: if_splits)
  qed
qed

lemma validateIntentAndContextParams_accepts:
  "validateIntentAndContextParams i c = Inr () \<longleftrightarrow> isNonEmptyString i \<and> \<not> malformedContext c"
  using validateContext_accepts [of c] validateIntent_accepts [of i]
  by (auto simp: validateIntentAndContextParams_def split: sum.splits)

lemma validateIntentAndContextParams_error:
  "validateIntentAndContextParams i c = Inl e \<Longrightarrow> isValidationError e"
  by (auto simp: validateIntentAndContextParams_def split: sum.splits
        dest: validateContext_error validateIntent_error)

lemma validateRaiseIntent_accepts:
  "validateRaiseIntent i c t = Inr () \<longleftrightarrow>
     isNonEmptyString i \<and> \<not> malformedContext c \<and> \<not> malformedTarget t"
  using validateIntentAndContextParams_accepts [of i c]
  by (auto simp: validateRaiseIntent_def malformedTarget_def typeof_string_iff split: sum.splits)

lemma validateRaiseIntent_error: "validateRaiseIntent i c t = Inl e \<Longrightarrow> isValidationError e"
  by (auto simp: validateRaiseIntent_def isValidationError_def validationMessages_def
        split: sum.splits if_splits dest: validateIntentAndContextParams_error)

lemma validateAddIntentListener_accepts:
  "validateAddIntentListener i h = Inr () \<longleftrightarrow> isNonEmptyString i \<and> isFunction h"
  using validateIntent_accepts [of i]
  by (cases h) (auto simp: validateAddIntentListener_def split: sum.splits)

lemma validateAddIntentListener_error:
  "validateAddIntentListener i h = Inl e \<Longrightarrow> isValidationError e"
  by (auto simp: validateAddIntentListener_def isValidationError_def validationMessages_def
        split: sum.splits if_splits dest: validateIntent_error)

lemma rejected: "r \<noteq> Inr () \<Longrightarrow> \<exists>e. r = Inl e"
  by (cases r) auto

subsection \<open>Validation comes before every remote call\<close>

text \<open>
  C9, as amended. An operation given an \<^verbatim>\<open>app\<close> or \<^verbatim>\<open>intent\<close> that is not a non-empty
  string, a handler that is not a function, a truthy context that is not an object with a
  non-empty string \<^verbatim>\<open>type\<close> and a \<^verbatim>\<open>name\<close> that is falsy or a string, or a truthy
  target that is not a string, fails with one of the validation errors and makes no remote
  call: the calls made so far are returned unchanged (and so is the callback registry). The
  failure is a rejected promise for \<^verbatim>\<open>open\<close>, \<^verbatim>\<open>findIntent\<close>,
  \<^verbatim>\<open>findIntentsByContext\<close> and \<^verbatim>\<open>raiseIntent\<close>, which are \<^verbatim>\<open>async\<close>, and an exception
  for the two listener operations. A falsy context or target is taken as absent and is not
  an error.
\<close>

theorem validation_before_remote_calls:
  "(\<not> isNonEmptyString app \<or> malformedContext c \<longrightarrow>
      (\<exists>e. isValidationError e \<and> open fdc3 app c others tr = (Inl e, tr))) \<and>
   (\<not> isNonEmptyString i \<or> malformedContext c \<longrightarrow>
      (\<exists>e. isValidationError e \<and> findIntent fdc3 i c tr = (Inl e, tr))) \<and>
   (malformedContext c \<longrightarrow>
      (\<exists>e. isValidationError e \<and> findIntentsByContext fdc3 c tr = (Inl e, tr))) \<and>
   (\<not> isNonEmptyString i \<or> malformedContext c \<or> malformedTarget t \<longrightarrow>
      (\<exists>e. isValidationError e \<and> raiseIntent fdc3 i c t tr = (Inl e, tr))) \<and>
   (\<not> isNonEmptyString i \<or> \<not> isFunction h \<longrightarrow>
      (\<exists>e. isValidationError e \<and> addIntentListener fdc3 i h reg tr = (Inl e, reg, tr))) \<and>
   (\<not> isFunction h \<longrightarrow>
      (\<exists>e. isValidationError e \<and> addContextListener fdc3 h reg tr = (Inl e, reg, tr)))"
proof (intro conjI impI)
  assume "\<not> isNonEmptyString app \<or> malformedContext c"
  then have "validateOpenParams app c \<noteq> Inr ()"
    by (simp add: validateOpenParams_accepts)
  then obtain e where "validateOpenParams app c = Inl e"
    using rejected by blast
  then show "\<exists>e. isValidationError e \<and> open fdc3 app c others tr = (Inl e, tr)"
    using validateOpenParams_error by (auto simp: open_def)
next
  assume "\<not> isNonEmptyString i \<or> malformedContext c"
  then have "validateIntentAndContextParams i c \<noteq> Inr ()"
    by (simp add: validateIntentAndContextParams_accepts)
  then obtain e where "validateIntentAndContextParams i c = Inl e"
    using rejected by blast
  then show "\<exists>e. isValidationError e \<and> findIntent fdc3 i c tr = (Inl e, tr)"
    using validateIntentAndContextParams_error by (auto simp: findIntent_def)
next
  assume "malformedContext c"
  then have "validateContext c \<noteq> Inr ()"
    by (simp add: validateContext_accepts)
  then obtain e where "validateContext c = Inl e"
    using rejected by blast
  then show "\<exists>e. isValidationError e \<and> findIntentsByContext fdc3 c tr = (Inl e, tr)"
    using validateContext_error by (auto simp: findIntentsByContext_def)
next
  assume "\<not> isNonEmptyString i \<or> malformedContext c \<or> malformedTarget t"
  then have "validateRaiseIntent i c t \<noteq> Inr ()"
    by (simp add: validateRaiseIntent_accepts)
  then obtain e where "validateRaiseIntent i c t = Inl e"
    using rejected by blast
  then show "\<exists>e. isValidationError e \<and> raiseIntent fdc3 i c t tr = (Inl e, tr)"
    using validateRaiseIntent_error by (auto simp: raiseIntent_def)
next
  assume "\<not> isNonEmptyString i \<or> \<not> isFunction h"
  then have "validateAddIntentListener i h \<noteq> Inr ()"
    by (simp add: validateAddIntentListener_accepts)
  then obtain e where "validateAddIntentListener i h = Inl e"
    using rejected by blast
  then show "\<exists>e. isValidationError e \<and> addIntentListener fdc3 i h reg tr = (Inl e, reg, tr)"
    using validateAddIntentListener_error by (auto simp: addIntentListener_def)
next
  assume "\<not> isFunction h"
  then show "\<exists>e. isValidationError e \<and> addContextListener fdc3 h reg tr = (Inl e, reg, tr)"
    by (cases h) (auto simp: addContextListener_def isValidationError_def validationMessages_def)
qed

theorem validation_before_remote_calls_witness:
  "\<not> isNonEmptyString JUndefined \<and> \<not> isNonEmptyString (JNum 7) \<and>
   malformedContext (JStr ''contact'') \<and> malformedTarget (JBool True) \<and>
   \<not> isFunction JNull \<and>
   (\<exists>e. isValidationError e \<and>
        open callChatEngine JUndefined (JStr ''contact'') (\<lambda>h. None) [] = (Inl e, [])) \<and>
   (\<exists>e. isValidationError e \<and>
        findIntent callChatEngine (JNum 7) (JStr ''contact'') [] = (Inl e, [])) \<and>
   (\<exists>e. isValidationError e \<and>
        findIntentsByContext callChatEngine (JStr ''contact'') [] = (Inl e, [])) \<and>
   (\<exists>e. isValidationError e \<and>
        raiseIntent callChatEngine (JNum 7) (JStr ''contact'') (JBool True) [] = (Inl e, [])) \<and>
   (\<exists>e. isValidationError e \<and>
        addIntentListener callChatEngine (JNum 7) JNull [] [] = (Inl e, [], [])) \<and>
   (\<exists>e. isValidationError e \<and>
        addContextListener callChatEngine JNull [] [] = (Inl e, [], []))"
  using validation_before_remote_calls
    [of JUndefined "JStr ''contact''" callChatEngine "\<lambda>h. None" "[]" "JNum 7" "JBool True"
        JNull "[]"]
  by (simp add: malformedContext_def malformedTarget_def)

text \<open>
  The claim as it stands fails on a missing context: \<^verbatim>\<open>findIntentsByContext(undefined)\<close>
  passes validation, queries both platforms and resolves with an empty list.
\<close>

theorem findIntentsByContext_missing_context_counterexample:
  "findIntentsByContext callChatEngine JUndefined [] =
     (Inr [], [DiscoverMethods ''A'', DiscoverMethods ''B''])"
  by (simp add: findIntentsByContext_def validateContext_def quoteJSONString_def
        escape_char_def example_defs)

subsection \<open>raiseIntent\<close>

text \<open>
  C10. With no platform, \<^verbatim>\<open>raiseIntent\<close> on a valid intent, context and optional target
  resolves with \<^verbatim>\<open>undefined\<close> and makes no remote call.
\<close>

theorem raiseIntent_no_platforms:
  "isNonEmptyString i \<Longrightarrow> \<not> malformedContext c \<Longrightarrow> \<not> malformedTarget t \<Longrightarrow> platforms fdc3 = [] \<Longrightarrow>
     raiseIntent fdc3 i c t tr = (Inr JUndefined, tr)"
  using validateRaiseIntent_accepts [of i c t] by (simp add: raiseIntent_def)

theorem raiseIntent_no_platforms_witness:
  "isNonEmptyString (JStr ''Call'') \<and> \<not> malformedContext contactContext \<and>
   \<not> malformedTarget JUndefined \<and> platforms \<lparr>platforms = []\<rparr> = [] \<and>
   raiseIntent \<lparr>platforms = []\<rparr> (JStr ''Call'') contactContext JUndefined [] =
     (Inr JUndefined, [])"
  using raiseIntent_no_platforms
    [of "JStr ''Call''" contactContext JUndefined "\<lparr>platforms = []\<rparr>" "[]"]
  by (simp add: malformedContext_def malformedTarget_def example_defs)

text \<open>
  The loop of \<^verbatim>\<open>raiseIntent\<close> never reaches a second platform: the outcome and the remote
  calls are those of the engine over the first platform alone.
\<close>

lemma raiseIntent_platforms_first_only:
  "raiseIntent_platforms i c t (p # ps) tr = raiseIntent_platforms i c t [p] tr"
  by simp

text \<open>
  C1. The first platform has no method for the intent Call and the second has exactly one.
  The claim has the router commit to the second platform, the first that has a matching
  method, and invoke that method. The code discovers the methods of the first platform
  only and rejects.
\<close>

theorem raiseIntent_stops_at_first_platform:
  \<open>raiseIntent emptyThenCallEngine (JStr ''Call'') contactContext JUndefined [] =
     (Inl (Error ''There is no method with intent "Call"''), [DiscoverMethods ''A''])\<close>
  by (simp add: raiseIntent_def validateRaiseIntent_def validateIntentAndContextParams_def
        validateIntent_def validateContext_def emptyThenCallEngine_def example_defs)

subsection \<open>findIntent\<close>

text \<open>
  The three loops append, to the applications collected so far, the owning application of
  every declared intent that passes the test, in platform, method and declaration order.
\<close>

lemma findIntent_intents_eq:
  "findIntent_intents i c m mis acc =
     acc @ [\<lparr>AppMetadata.name = applicationName (peer m)\<rparr>. mi \<leftarrow> mis, keeps i c mi]"
  by (induction mis arbitrary: acc) (auto simp: keeps_def)

lemma findIntent_methods_eq:
  "findIntent_methods i c ms acc =
     acc @ [\<lparr>AppMetadata.name = applicationName (peer m)\<rparr>.
              m \<leftarrow> ms, mi \<leftarrow> Method.intent m, keeps i c mi]"
  by (induction ms arbitrary: acc) (auto simp: findIntent_intents_eq)

lemma findIntent_platforms_eq:
  "\<forall>r \<in> set (discoveries ps tr). \<not> isl r \<Longrightarrow>
   findIntent_platforms i c ps acc tr =
     (Inr (acc @ [\<lparr>AppMetadata.name = applicationName (peer m)\<rparr>.
                    ms \<leftarrow> map projr (discoveries ps tr), m \<leftarrow> ms,
                    mi \<leftarrow> Method.intent m, keeps i c mi]),
      tr @ map (\<lambda>p. DiscoverMethods (Platform.name p)) ps)"
proof (induction ps arbitrary: acc tr)
  case Nil
  then show ?case by simp
next
  case (Cons p ps)
  from Cons.prems obtain ms where ms: "discoverMethods (platformApi p) tr = Inr ms"
    by (cases "discoverMethods (platformApi p) tr") auto
  from Cons.prems have rest: "\<forall>r \<in> set (discoveries ps (tr @ [DiscoverMethods (Platform.name p)])). \<not> isl r"
    by simp
  show ?case
    by (simp add: ms Cons.IH [OF rest] findIntent_methods_eq)
qed

lemma findIntent_resolves:
  assumes "isNonEmptyString i" and "\<not> malformedContext c"
    and "\<forall>r \<in> set (discoveries (platforms fdc3) tr). \<not> isl r"
  shows "findIntent fdc3 i c tr =
     (Inr \<lparr>intent = \<lparr>IntentMetadata.name = asString i, displayName = asString i\<rparr>,
           apps = [\<lparr>AppMetadata.name = applicationName (peer m)\<rparr>.
                    ms \<leftarrow> map projr (discoveries (platforms fdc3) tr), m \<leftarrow> ms,
                    mi \<leftarrow> Method.intent m, keeps i c mi]\<rparr>,
      tr @ map (\<lambda>p. DiscoverMethods (Platform.name p)) (platforms fdc3))"
  using assms validateIntentAndContextParams_accepts [of i c]
  by (simp add: findIntent_def findIntent_platforms_eq)

text \<open>
  C3. \<^verbatim>\<open>findIntent(intent)\<close> without a context, when every platform's discovery
  resolves: the result is a single \<^verbatim>\<open>AppIntent\<close> of that intent name whose \<^verbatim>\<open>apps\<close> holds
  the owning application of every declared intent of that name among the discovered methods,
  in platform, then method, then declaration order, one entry per declared intent, so that
  duplicates are kept; one discovery call is made per platform.
\<close>

theorem findIntent_without_context:
  assumes "isNonEmptyString i" and "\<not> truthy c"
    and "\<forall>r \<in> set (discoveries (platforms fdc3) tr). \<not> isl r"
  shows "findIntent fdc3 i c tr =
     (Inr \<lparr>intent = \<lparr>IntentMetadata.name = asString i, displayName = asString i\<rparr>,
           apps = [\<lparr>AppMetadata.name = applicationName (peer m)\<rparr>.
                    ms \<leftarrow> map projr (discoveries (platforms fdc3) tr), m \<leftarrow> ms,
                    mi \<leftarrow> Method.intent m, MethodIntent.name mi = asString i]\<rparr>,
      tr @ map (\<lambda>p. DiscoverMethods (Platform.name p)) (platforms fdc3))"
proof -
  from assms(1) obtain s where s: "i = JStr s" by (cases i) auto
  from assms(2) have "\<not> malformedContext c" by (simp add: malformedContext_def)
  from findIntent_resolves [OF assms(1) this assms(3)] assms(2) show ?thesis
    by (simp add: keeps_def s)
qed

theorem findIntent_without_context_witness:
  "isNonEmptyString (JStr ''Call'') \<and> \<not> truthy JUndefined \<and>
   list_all (\<lambda>r. \<not> isl r) (discoveries (platforms callChatEngine) []) \<and>
   findIntent callChatEngine (JStr ''Call'') JUndefined [] =
     (Inr \<lparr>intent = \<lparr>IntentMetadata.name = ''Call'', displayName = ''Call''\<rparr>,
           apps = [\<lparr>AppMetadata.name = ''Phone''\<rparr>, \<lparr>AppMetadata.name = ''Dialer''\<rparr>]\<rparr>,
      [DiscoverMethods ''A'', DiscoverMethods ''B''])"
  using findIntent_without_context [of "JStr ''Call''" JUndefined callChatEngine "[]"]
  by (simp add: example_defs)

text \<open>
  C2, as amended. \<^verbatim>\<open>findIntent(intent, ctx)\<close> with a supplied (truthy, well-formed)
  context, when every platform's discovery resolves and neither \<^verbatim>\<open>ctx\<close> nor a declared
  context holds an object with a callable \<^verbatim>\<open>toJSON\<close>: a declared intent is kept if and
  only if its name equals \<^verbatim>\<open>intent\<close> and \<^verbatim>\<open>JSON.stringify\<close> gives the same text for
  \<^verbatim>\<open>ctx\<close> and for its declared context. The result lists the owning applications of the
  declared intents kept, in platform, method and declaration order.
\<close>

theorem findIntent_with_context:
  assumes "isNonEmptyString i" and "truthy c" and "\<not> malformedContext c"
    and "\<forall>r \<in> set (discoveries (platforms fdc3) tr). \<not> isl r"
    and "noToJSON c"
    and "\<forall>d \<in> set (declaredContexts (map projr (discoveries (platforms fdc3) tr))). noToJSON d"
  shows "findIntent fdc3 i c tr =
     (Inr \<lparr>intent = \<lparr>IntentMetadata.name = asString i, displayName = asString i\<rparr>,
           apps = [\<lparr>AppMetadata.name = applicationName (peer m)\<rparr>.
                    ms \<leftarrow> map projr (discoveries (platforms fdc3) tr), m \<leftarrow> ms,
                    mi \<leftarrow> Method.intent m,
                    MethodIntent.name mi = asString i \<and>
                    JSON_stringify c = JSON_stringify (context mi)]\<rparr>,
      tr @ map (\<lambda>p. DiscoverMethods (Platform.name p)) (platforms fdc3))"
proof -
  from assms(1) obtain s where s: "i = JStr s" by (cases i) auto
  from findIntent_resolves [OF assms(1) assms(3) assms(4)] assms(2) show ?thesis
    by (simp add: keeps_def s)
qed

theorem findIntent_with_context_witness:
  "isNonEmptyString (JStr ''Call'') \<and> truthy contactContext \<and>
   \<not> malformedContext contactContext \<and>
   list_all (\<lambda>r. \<not> isl r) (discoveries (platforms callChatEngine) []) \<and>
   noToJSON contactContext \<and>
   list_all noToJSON (declaredContexts (map projr (discoveries (platforms callChatEngine) []))) \<and>
   findIntent callChatEngine (JStr ''Call'') contactContext [] =
     (Inr \<lparr>intent = \<lparr>IntentMetadata.name = ''Call'', displayName = ''Call''\<rparr>,
           apps = [\<lparr>AppMetadata.name = ''Phone''\<rparr>, \<lparr>AppMetadata.name = ''Dialer''\<rparr>]\<rparr>,
      [DiscoverMethods ''A'', DiscoverMethods ''B''])"
  using findIntent_with_context [of "JStr ''Call''" contactContext callChatEngine "[]"]
  by (simp add: malformedContext_def declaredContexts_def example_defs)

text \<open>
  The claim as it stands fails on key order: both platforms declare Call for the contact
  context \<^verbatim>\<open>{type, name}\<close>, whose two properties are strings; asked with the same two
  properties as \<^verbatim>\<open>{name, type}\<close>, \<^verbatim>\<open>findIntent\<close> keeps none of the declarations.
\<close>

theorem findIntent_key_order_counterexample:
  "set (rev contactProperties) = set contactProperties \<and>
   findIntent callChatEngine (JStr ''Call'') (JObj (rev contactProperties)) [] =
     (Inr \<lparr>intent = \<lparr>IntentMetadata.name = ''Call'', displayName = ''Call''\<rparr>, apps = []\<rparr>,
      [DiscoverMethods ''A'', DiscoverMethods ''B''])"
proof
  show "set (rev contactProperties) = set contactProperties"
    by (rule set_rev)
  show "findIntent callChatEngine (JStr ''Call'') (JObj (rev contactProperties)) [] =
     (Inr \<lparr>intent = \<lparr>IntentMetadata.name = ''Call'', displayName = ''Call''\<rparr>, apps = []\<rparr>,
      [DiscoverMethods ''A'', DiscoverMethods ''B''])"
    by (simp add: findIntent_def validateIntentAndContextParams_def validateIntent_def
          validateContext_def quoteJSONString_def escape_char_def example_defs)
qed

subsection \<open>findIntentsByContext\<close>

text \<open>
  The loops keep the list of entries equal to the grouping of the matches met so far: a
  match whose intent name has an entry extends that entry, and any other match adds an
  entry at the end.
\<close>

lemma firstSeen_snoc:
  "firstSeen (xs @ [x]) = (if x \<in> set xs then firstSeen xs else firstSeen xs @ [x])"
  by (simp add: firstSeen_def)

lemma set_firstSeen: "set (firstSeen xs) = set xs"
  by (simp add: firstSeen_def)

lemma distinct_firstSeen: "distinct (firstSeen xs)"
  by (simp add: firstSeen_def)

lemma appIntentFor_snoc:
  "appIntentFor (xs @ [(n, a)]) k =
     (if k = n then (appIntentFor xs k)\<lparr>apps := apps (appIntentFor xs k) @ [\<lparr>AppMetadata.name = a\<rparr>]\<rparr>
      else appIntentFor xs k)"
  by (simp add: appIntentFor_def)

lemma appIntentFor_name: "IntentMetadata.name (intent (appIntentFor xs k)) = k"
  by (simp add: appIntentFor_def)

lemma pushToFound_absent:
  "n \<notin> set ns \<Longrightarrow> pushToFound n a (map (appIntentFor xs) ns) = None"
  by (induction ns) (auto simp: appIntentFor_name)

lemma map_appIntentFor_other:
  "n \<notin> set ns \<Longrightarrow> map (appIntentFor (xs @ [(n, a)])) ns = map (appIntentFor xs) ns"
  by (induction ns) (auto simp: appIntentFor_snoc)

lemma pushToFound_present:
  "n \<in> set ns \<Longrightarrow> distinct ns \<Longrightarrow>
     pushToFound n \<lparr>AppMetadata.name = a\<rparr> (map (appIntentFor xs) ns) =
       Some (map (appIntentFor (xs @ [(n, a)])) ns)"
proof (induction ns)
  case Nil
  then show ?case by simp
next
  case (Cons k ns)
  show ?case
  proof (cases "k = n")
    case True
    with Cons.prems have "n \<notin> set ns" by simp
    then show ?thesis
      using True by (simp add: appIntentFor_name map_appIntentFor_other) (simp add: appIntentFor_snoc)
  next
    case False
    with Cons.prems have "n \<in> set ns" "distinct ns" by auto
    from Cons.IH [OF this] False show ?thesis
      by (simp add: appIntentFor_name) (simp add: appIntentFor_snoc)
  qed
qed

lemma appIntentFor_new:
  "n \<notin> fst ` set xs \<Longrightarrow>
     appIntentFor (xs @ [(n, a)]) n =
       \<lparr>intent = \<lparr>IntentMetadata.name = n, displayName = n\<rparr>, apps = [\<lparr>AppMetadata.name = a\<rparr>]\<rparr>"
proof -
  assume "n \<notin> fst ` set xs"
  then have "[\<lparr>AppMetadata.name = a'\<rparr>. (n', a') \<leftarrow> xs, n' = n] = []"
    by (induction xs) auto
  then show ?thesis by (simp add: appIntentFor_def)
qed

lemma pushMatch_groupByIntent:
  "pushMatch (groupByIntent xs) n a = groupByIntent (xs @ [(n, a)])"
proof (cases "n \<in> fst ` set xs")
  case True
  then have "n \<in> set (firstSeen (map fst xs))" by (simp add: set_firstSeen)
  from pushToFound_present [OF this distinct_firstSeen] True show ?thesis
    by (simp add: pushMatch_def groupByIntent_def firstSeen_snoc)
next
  case False
  then have "n \<notin> set (firstSeen (map fst xs))" by (simp add: set_firstSeen)
  from pushToFound_absent [OF this] map_appIntentFor_other [OF this] False show ?thesis
    by (simp add: pushMatch_def groupByIntent_def firstSeen_snoc appIntentFor_new)
qed

lemma findIntentsByContext_intents_eq:
  "findIntentsByContext_intents c m mis (groupByIntent xs) =
     groupByIntent (xs @ [(MethodIntent.name mi, applicationName (peer m)).
                            mi \<leftarrow> mis, JSON_stringify (context mi) = JSON_stringify c])"
proof (induction mis arbitrary: xs)
  case Nil
  then show ?case by simp
next
  case (Cons mi mis)
  show ?case
  proof (cases "JSON_stringify (context mi) = JSON_stringify c")
    case True
    have "findIntentsByContext_intents c m (mi # mis) (groupByIntent xs) =
            findIntentsByContext_intents c m mis
              (pushMatch (groupByIntent xs) (MethodIntent.name mi) (applicationName (peer m)))"
      using True by (simp add: pushMatch_def)
    then show ?thesis
      using True by (simp add: pushMatch_groupByIntent Cons.IH)
  next
    case False
    then show ?thesis by (simp add: Cons.IH)
  qed
qed

lemma findIntentsByContext_methods_eq:
  "findIntentsByContext_methods c ms (groupByIntent xs) =
     groupByIntent (xs @ matchesFor c [ms])"
proof (induction ms arbitrary: xs)
  case Nil
  then show ?case by (simp add: matchesFor_def)
next
  case (Cons m ms)
  show ?case
    by (cases "Method.intent m")
       (simp_all add: findIntentsByContext_intents_eq Cons.IH matchesFor_def)
qed

lemma findIntentsByContext_platforms_eq:
  "\<forall>r \<in> set (discoveries ps tr). \<not> isl r \<Longrightarrow>
   findIntentsByContext_platforms c ps (groupByIntent xs) tr =
     (Inr (groupByIntent (xs @ matchesFor c (map projr (discoveries ps tr)))),
      tr @ map (\<lambda>p. DiscoverMethods (Platform.name p)) ps)"
proof (induction ps arbitrary: xs tr)
  case Nil
  then show ?case by (simp add: matchesFor_def)
next
  case (Cons p ps)
  from Cons.prems obtain ms where ms: "discoverMethods (platformApi p) tr = Inr ms"
    by (cases "discoverMethods (platformApi p) tr") auto
  from Cons.prems have rest: "\<forall>r \<in> set (discoveries ps (tr @ [DiscoverMethods (Platform.name p)])). \<not> isl r"
    by simp
  have "matchesFor c (map projr (discoveries (p # ps) tr)) =
          matchesFor c [ms] @
          matchesFor c (map projr (discoveries ps (tr @ [DiscoverMethods (Platform.name p)])))"
    by (simp add: ms matchesFor_def)
  then show ?case
    by (simp add: ms findIntentsByContext_methods_eq Cons.IH [OF rest])
qed

text \<open>
  C6. \<^verbatim>\<open>findIntentsByContext(ctx)\<close>, when every platform's discovery resolves: the
  result is the grouping of the matches by intent name: one \<^verbatim>\<open>AppIntent\<close> per intent name,
  in the order in which the names are first met across the platforms, each listing the
  owning applications of its matches in the order met. In the example, platform A offers
  Call and platform B offers Call and Chat: two entries, Call with both applications and
  Chat with one.
\<close>

theorem findIntentsByContext_groups:
  assumes "\<not> malformedContext c"
    and "\<forall>r \<in> set (discoveries (platforms fdc3) tr). \<not> isl r"
  shows "findIntentsByContext fdc3 c tr =
     (Inr (groupByIntent (matchesFor c (map projr (discoveries (platforms fdc3) tr)))),
      tr @ map (\<lambda>p. DiscoverMethods (Platform.name p)) (platforms fdc3))"
proof -
  have e: "[] = groupByIntent []" by (simp add: groupByIntent_def firstSeen_def)
  from assms(1) have "validateContext c = Inr ()" by (simp add: validateContext_accepts)
  then show ?thesis
    using findIntentsByContext_platforms_eq [OF assms(2), of c "[]"]
    by (simp add: findIntentsByContext_def) (simp add: e [symmetric])
qed

theorem findIntentsByContext_groups_witness:
  "\<not> malformedContext contactContext \<and>
   list_all (\<lambda>r. \<not> isl r) (discoveries (platforms callChatEngine) []) \<and>
   findIntentsByContext callChatEngine contactContext [] =
     (Inr [\<lparr>intent = \<lparr>IntentMetadata.name = ''Call'', displayName = ''Call''\<rparr>,
            apps = [\<lparr>AppMetadata.name = ''Phone''\<rparr>, \<lparr>AppMetadata.name = ''Dialer''\<rparr>]\<rparr>,
           \<lparr>intent = \<lparr>IntentMetadata.name = ''Chat'', displayName = ''Chat''\<rparr>,
            apps = [\<lparr>AppMetadata.name = ''Messenger''\<rparr>]\<rparr>],
      [DiscoverMethods ''A'', DiscoverMethods ''B''])"
  using findIntentsByContext_groups [of contactContext callChatEngine "[]"]
  by (simp add: malformedContext_def groupByIntent_def matchesFor_def firstSeen_def
        appIntentFor_def example_defs)

subsection \<open>broadcast\<close>








subsection \<open>Fdc3Bus\<close>

lemma connectUntilReady_pending:
  "\<forall>j. \<not> readyAt ip methods j \<Longrightarrow> fst (connectUntilReady fuel k ip methods tr) = None"
proof (induction fuel arbitrary: k tr)
  case 0
  then show ?case by simp
next
  case (Suc fuel)
  from Suc.prems have "isl (connect ip k (applicationNameOf ip) methods)"
    by (simp add: readyAt_def)
  then obtain e where "connect ip k (applicationNameOf ip) methods = Inl e"
    by (cases "connect ip k (applicationNameOf ip) methods") auto
  then show ?case
    using Suc.IH [OF Suc.prems] by (simp add: Let_def)
qed

lemma connectUntilReady_ready:
  "readyAt ip methods (k + j) \<Longrightarrow> j < fuel \<Longrightarrow>
     \<exists>peer tr' i. connectUntilReady fuel k ip methods tr = (Some peer, tr') \<and>
        connect ip i (applicationNameOf ip) methods = Inr peer \<and>
        Connect (type ip) (applicationNameOf ip) \<in> set tr'"
proof (induction fuel arbitrary: k j tr)
  case 0
  then show ?case by simp
next
  case (Suc fuel)
  show ?case
  proof (cases "connect ip k (applicationNameOf ip) methods")
    case (Inr peer)
    then show ?thesis
      by (auto simp: Let_def)
  next
    case (Inl e)
    with Suc.prems(1) have "j \<noteq> 0" by (auto simp: readyAt_def intro: ccontr)
    then obtain j' where j: "j = Suc j'" by (cases j) auto
    with Suc.prems have "readyAt ip methods (Suc k + j')" "j' < fuel" by auto
    from Suc.IH [OF this] Inl show ?thesis
      by (simp add: Let_def)
  qed
qed

lemma connectUntilReady_keeps: "set tr \<subseteq> set (snd (connectUntilReady fuel k ip methods tr))"
proof (induction fuel arbitrary: k tr)
  case 0
  then show ?case by simp
next
  case (Suc fuel)
  show ?case
  proof (cases "connect ip k (applicationNameOf ip) methods")
    case (Inr peer)
    then show ?thesis by (auto simp: Let_def)
  next
    case (Inl e)
    with Suc.IH [of "tr @ [Connect (type ip) (applicationNameOf ip)]" "Suc k"] show ?thesis
      by (auto simp: Let_def)
  qed
qed

lemma interopPeers_keeps: "set tr \<subseteq> set (snd (interopPeers fuel ips methods tr))"
proof (induction ips arbitrary: tr)
  case Nil
  then show ?case by simp
next
  case (Cons ip ips)
  obtain r tr1 where c: "connectUntilReady fuel 0 ip methods tr = (r, tr1)"
    by (cases "connectUntilReady fuel 0 ip methods tr")
  obtain rs tr2 where i: "interopPeers fuel ips methods tr1 = (rs, tr2)"
    by (cases "interopPeers fuel ips methods tr1")
  from connectUntilReady_keeps [of tr fuel 0 ip methods] c have "set tr \<subseteq> set tr1" by simp
  moreover from Cons.IH [of tr1] i have "set tr1 \<subseteq> set tr2" by simp
  ultimately show ?case by (auto simp: c i)
qed

lemma interopPeers_ready:
  "\<forall>ip \<in> set ips. \<exists>k. readyAt ip methods k \<Longrightarrow>
     \<exists>fuel0. \<forall>fuel \<ge> fuel0. \<forall>tr. \<exists>peers tr'.
        interopPeers fuel ips methods tr = (Some peers, tr') \<and>
        length peers = length ips \<and>
        (\<forall>(peer, ip) \<in> set (zip peers ips).
           \<exists>i. connect ip i (applicationNameOf ip) methods = Inr peer) \<and>
        (\<forall>ip \<in> set ips. Connect (type ip) (applicationNameOf ip) \<in> set tr')"
proof (induction ips)
  case Nil
  then show ?case by simp
next
  case (Cons ip ips)
  from Cons.prems obtain k where k: "readyAt ip methods k" by auto
  from Cons.prems have "\<forall>ip \<in> set ips. \<exists>k. readyAt ip methods k" by simp
  from Cons.IH [OF this] obtain fuel0 where rest:
    "\<And>fuel tr. fuel \<ge> fuel0 \<Longrightarrow> \<exists>peers tr'.
        interopPeers fuel ips methods tr = (Some peers, tr') \<and>
        length peers = length ips \<and>
        (\<forall>(peer, ip) \<in> set (zip peers ips).
           \<exists>i. connect ip i (applicationNameOf ip) methods = Inr peer) \<and>
        (\<forall>ip \<in> set ips. Connect (type ip) (applicationNameOf ip) \<in> set tr')"
    by blast
  have "\<exists>peers tr'.
        interopPeers fuel (ip # ips) methods tr = (Some peers, tr') \<and>
        length peers = length (ip # ips) \<and>
        (\<forall>(peer, ip) \<in> set (zip peers (ip # ips)).
           \<exists>i. connect ip i (applicationNameOf ip) methods = Inr peer) \<and>
        (\<forall>ip \<in> set (ip # ips). Connect (type ip) (applicationNameOf ip) \<in> set tr')"
    if fuel: "fuel \<ge> max fuel0 (Suc k)" for fuel tr
  proof -
    from k have "readyAt ip methods (0 + k)" by simp
    moreover from fuel have "k < fuel" by simp
    ultimately obtain peer tr1 i where
      c: "connectUntilReady fuel 0 ip methods tr = (Some peer, tr1)" and
      p: "connect ip i (applicationNameOf ip) methods = Inr peer" and
      e: "Connect (type ip) (applicationNameOf ip) \<in> set tr1"
      using connectUntilReady_ready [of ip methods 0 k fuel tr] by blast
    from fuel have "fuel \<ge> fuel0" by simp
    from rest [OF this, of tr1] obtain peers tr2 where
      r: "interopPeers fuel ips methods tr1 = (Some peers, tr2)" and
      l: "length peers = length ips" and
      z: "\<forall>(peer, ip) \<in> set (zip peers ips).
           \<exists>i. connect ip i (applicationNameOf ip) methods = Inr peer" and
      t: "\<forall>ip \<in> set ips. Connect (type ip) (applicationNameOf ip) \<in> set tr2"
      by blast
    from interopPeers_keeps [of tr1 fuel ips methods] r e
    have "Connect (type ip) (applicationNameOf ip) \<in> set tr2" by auto
    with c r l z t p show ?thesis by auto
  qed
  then show ?case by blast
qed

lemma Fdc3Bus_duplicate:
  "\<not> distinct (map type ips) \<Longrightarrow>
     Fdc3Bus fuel ips methods tr = (Some (Inl (Error ''Multiple platforms have the same type.'')), tr)"
  using card_distinct [of "map type ips"] by (auto simp: Fdc3Bus_def Let_def)

lemma interopPeers_pending:
  "ip \<in> set ips \<Longrightarrow> \<forall>k. \<not> readyAt ip methods k \<Longrightarrow>
     fst (interopPeers fuel ips methods tr) = None"
proof (induction ips arbitrary: tr)
  case Nil
  then show ?case by simp
next
  case (Cons x ips)
  obtain r tr1 where c: "connectUntilReady fuel 0 x methods tr = (r, tr1)"
    by (cases "connectUntilReady fuel 0 x methods tr")
  obtain rs tr2 where i: "interopPeers fuel ips methods tr1 = (rs, tr2)"
    by (cases "interopPeers fuel ips methods tr1")
  show ?case
  proof (cases "ip = x")
    case True
    with Cons.prems(2) connectUntilReady_pending [of x methods fuel 0 tr] c have "r = None"
      by simp
    then show ?thesis by (simp add: c i)
  next
    case False
    with Cons.prems have "ip \<in> set ips" by simp
    from Cons.IH [OF this Cons.prems(2), of tr1] i have "rs = None" by simp
    then show ?thesis by (simp add: c i split: option.splits)
  qed
qed

text \<open>
  C8, as amended. When two descriptors share a platform type, bus construction rejects
  with the configuration error and no connection attempt is made, however long one waits.
  When the types are distinct and every platform's connection succeeds at some tick, then
  after enough ticks bus construction resolves with an engine over one platform per
  descriptor, in order, named by the descriptor's type, whose capability handle is the
  peer that a connection attempt to that descriptor returned; a connection attempt was made
  to every descriptor. When the types are distinct and the connection of some platform
  succeeds at no tick, bus construction is still pending after any number of ticks: it
  neither resolves nor rejects.
\<close>

theorem Fdc3Bus_construction:
  "(\<not> distinct (map type ips) \<longrightarrow>
      (\<forall>fuel. Fdc3Bus fuel ips methods tr =
         (Some (Inl (Error ''Multiple platforms have the same type.'')), tr))) \<and>
   (distinct (map type ips) \<and> (\<forall>ip \<in> set ips. \<exists>k. readyAt ip methods k) \<longrightarrow>
      (\<exists>fuel fdc3 tr'.
         Fdc3Bus fuel ips methods tr = (Some (Inr fdc3), tr') \<and>
         map Platform.name (platforms fdc3) = map type ips \<and>
         (\<forall>(p, ip) \<in> set (zip (platforms fdc3) ips).
            \<exists>i. connect ip i (applicationNameOf ip) methods = Inr (platformApi p)) \<and>
         (\<forall>ip \<in> set ips. Connect (type ip) (applicationNameOf ip) \<in> set tr'))) \<and>
   (distinct (map type ips) \<and> (\<exists>ip \<in> set ips. \<forall>k. \<not> readyAt ip methods k) \<longrightarrow>
      (\<forall>fuel. fst (Fdc3Bus fuel ips methods tr) = None))"
proof (intro conjI impI allI)
  fix fuel
  assume a: "distinct (map type ips) \<and> (\<exists>ip \<in> set ips. \<forall>k. \<not> readyAt ip methods k)"
  then have "distinct (map type ips)" by simp
  from distinct_card [OF this] have d: "length (map type ips) = card (set (map type ips))"
    by simp
  from a obtain ip where "ip \<in> set ips" "\<forall>k. \<not> readyAt ip methods k" by blast
  from interopPeers_pending [OF this, of fuel tr]
  obtain tr' where "interopPeers fuel ips methods tr = (None, tr')"
    by (cases "interopPeers fuel ips methods tr") auto
  with d show "fst (Fdc3Bus fuel ips methods tr) = None"
    by (simp add: Fdc3Bus_def interopPlatformsToPlatforms_def Let_def)
next
  fix fuel
  assume "\<not> distinct (map type ips)"
  then show "Fdc3Bus fuel ips methods tr =
         (Some (Inl (Error ''Multiple platforms have the same type.'')), tr)"
    by (rule Fdc3Bus_duplicate)
next
  assume a: "distinct (map type ips) \<and> (\<forall>ip \<in> set ips. \<exists>k. readyAt ip methods k)"
  then have "distinct (map type ips)" by simp
  from distinct_card [OF this] have d: "length (map type ips) = card (set (map type ips))"
    by simp
  from a interopPeers_ready [of ips methods] obtain fuel peers tr' where
      r: "interopPeers fuel ips methods tr = (Some peers, tr')" and
      l: "length peers = length ips" and
      z: "\<forall>(peer, ip) \<in> set (zip peers ips).
           \<exists>i. connect ip i (applicationNameOf ip) methods = Inr peer" and
      t: "\<forall>ip \<in> set ips. Connect (type ip) (applicationNameOf ip) \<in> set tr'"
    by blast
  let ?mk = "\<lambda>(interopPeer, interopPlatform).
                        \<lparr>Platform.name = type interopPlatform,
                         version = InteropPlatform.version interopPlatform,
                         online = isConnected interopPeer,
                         connectionStatus = InteropPeer.connectionStatus interopPeer,
                         config = [],
                         platformApi = interopPeer\<rparr>"
  let ?ps = "map ?mk (zip peers ips)"
  have b: "Fdc3Bus fuel ips methods tr = (Some (Inr \<lparr>platforms = ?ps\<rparr>), tr')"
    using d r by (simp add: Fdc3Bus_def interopPlatformsToPlatforms_def Let_def)
  have n: "map Platform.name ?ps = map type ips"
    using l by (induction peers ips rule: list_induct2) auto
  have c: "\<forall>(p, ip) \<in> set (zip ?ps ips).
            \<exists>i. connect ip i (applicationNameOf ip) methods = Inr (platformApi p)"
    using l z by (induction peers ips rule: list_induct2) auto
  from b n c t show "\<exists>fuel fdc3 tr'.
         Fdc3Bus fuel ips methods tr = (Some (Inr fdc3), tr') \<and>
         map Platform.name (platforms fdc3) = map type ips \<and>
         (\<forall>(p, ip) \<in> set (zip (platforms fdc3) ips).
            \<exists>i. connect ip i (applicationNameOf ip) methods = Inr (platformApi p)) \<and>
         (\<forall>ip \<in> set ips. Connect (type ip) (applicationNameOf ip) \<in> set tr')"
    by (intro exI [of _ fuel] exI [of _ "\<lparr>platforms = ?ps\<rparr>"] exI [of _ tr']) simp
qed

theorem Fdc3Bus_construction_witness:
  "\<not> distinct (map type [readyFrom ''glue'' 0, readyFrom ''glue'' 0]) \<and>
   Fdc3Bus 3 [readyFrom ''glue'' 0, readyFrom ''glue'' 0] [] [] =
     (Some (Inl (Error ''Multiple platforms have the same type.'')), []) \<and>
   distinct (map type [readyFrom ''glue'' 2, readyFrom ''fin'' 0]) \<and>
   list_all (\<lambda>ip. readyAt ip [] 2) [readyFrom ''glue'' 2, readyFrom ''fin'' 0] \<and>
   (\<exists>fuel fdc3 tr'.
      Fdc3Bus fuel [readyFrom ''glue'' 2, readyFrom ''fin'' 0] [] [] = (Some (Inr fdc3), tr') \<and>
      map Platform.name (platforms fdc3) = [''glue'', ''fin'']) \<and>
   distinct (map type [readyFrom ''fin'' 0, unreachablePlatform]) \<and>
   list_ex (\<lambda>ip. \<forall>k. \<not> readyAt ip [] k) [readyFrom ''fin'' 0, unreachablePlatform] \<and>
   fst (Fdc3Bus 5 [readyFrom ''fin'' 0, unreachablePlatform] [] []) = None"
proof -
  let ?stuck = "[readyFrom ''fin'' 0, unreachablePlatform]"
  have sd: "distinct (map type ?stuck)"
    by (simp add: readyFrom_def unreachablePlatform_def)
  have sn: "list_ex (\<lambda>ip. \<forall>k. \<not> readyAt ip [] k) ?stuck"
    by (simp add: readyAt_def unreachablePlatform_def)
  then have "\<exists>ip \<in> set ?stuck. \<forall>k. \<not> readyAt ip [] k"
    unfolding list_ex_iff .
  with sd Fdc3Bus_construction [of ?stuck "[]" "[]"]
  have sp: "fst (Fdc3Bus 5 ?stuck [] []) = None"
    by blast
  let ?dup = "[readyFrom ''glue'' 0, readyFrom ''glue'' 0]"
  let ?ok = "[readyFrom ''glue'' 2, readyFrom ''fin'' 0]"
  have d: "\<not> distinct (map type ?dup)"
    by (simp add: readyFrom_def)
  have k: "distinct (map type ?ok)"
    by (simp add: readyFrom_def)
  have r: "list_all (\<lambda>ip. readyAt ip [] 2) ?ok"
    by (simp add: readyAt_def readyFrom_def)
  then have "\<forall>ip \<in> set ?ok. \<exists>k. readyAt ip [] k"
    unfolding list_all_iff by blast
  with k Fdc3Bus_construction [of ?ok "[]" "[]"]
  have "\<exists>fuel fdc3 tr'.
      Fdc3Bus fuel ?ok [] [] = (Some (Inr fdc3), tr') \<and>
      map Platform.name (platforms fdc3) = map type ?ok"
    by blast
  then have "\<exists>fuel fdc3 tr'.
      Fdc3Bus fuel ?ok [] [] = (Some (Inr fdc3), tr') \<and>
      map Platform.name (platforms fdc3) = [''glue'', ''fin'']"
    by (simp add: readyFrom_def)
  moreover from d Fdc3Bus_construction [of ?dup "[]" "[]"]
  have "Fdc3Bus 3 ?dup [] [] =
     (Some (Inl (Error ''Multiple platforms have the same type.'')), [])"
    by blast
  ultimately show ?thesis
    using d k r sd sn sp by blast
qed

text \<open>
  The claim as it stands fails on a platform that is never ready: with a single descriptor,
  whose type is then distinct, bus construction never settles.
\<close>

theorem Fdc3Bus_pending_counterexample:
  "distinct (map type [unreachablePlatform]) \<and>
   \<not> (\<exists>fuel r tr'. Fdc3Bus fuel [unreachablePlatform] [] [] = (Some r, tr'))"
proof -
  have "\<forall>j. \<not> readyAt unreachablePlatform [] j"
    by (simp add: readyAt_def unreachablePlatform_def)
  from connectUntilReady_pending [OF this]
  have p: "fst (connectUntilReady fuel 0 unreachablePlatform [] []) = None" for fuel .
  have "fst (Fdc3Bus fuel [unreachablePlatform] [] []) = None" for fuel
  proof -
    obtain r tr1 where c: "connectUntilReady fuel 0 unreachablePlatform [] [] = (r, tr1)"
      by (cases "connectUntilReady fuel 0 unreachablePlatform [] []")
    with p [of fuel] have "r = None" by simp
    with c show ?thesis
      by (simp add: Fdc3Bus_def interopPlatformsToPlatforms_def)
  qed
  then have "\<not> (\<exists>fuel r tr'. Fdc3Bus fuel [unreachablePlatform] [] [] = (Some r, tr'))"
    by (metis fst_conv option.distinct(1))
  then show ?thesis by simp
qed

subsection \<open>open\<close>

text \<open>
  With steady platforms whose discoveries resolve and whose application lists are arrays
  of entries that name the application at most once, the three loops of the resolution are
  filters, and \<^verbatim>\<open>open\<close> has one outcome for each number of platforms that list the
  application.
\<close>

lemma platformHasMethod_iff:
  "platformHasMethod p ms methodName \<longleftrightarrow>
     (\<exists>m \<in> set ms. Method.name m = ''Fdc3.'' @ Platform.name p @ ''.'' @ methodName)"
  by (auto simp: platformHasMethod_def Let_def filter_empty_conv)

lemma filterByName_entries:
  "JUndefined \<notin> set xs \<Longrightarrow> JNull \<notin> set xs \<Longrightarrow>
     filterByName app xs = Inr [a \<leftarrow> xs. getProp a ''name'' = JStr app]"
  by (induction xs) auto

lemma filterByName_raises:
  "JUndefined \<in> set xs \<or> JNull \<in> set xs \<Longrightarrow> isl (filterByName app xs)"
  by (induction xs) (auto split: sum.splits)

lemma supportingListApplications_eq:
  "\<forall>p \<in> set ps. steady p \<and> \<not> isl (discoverMethods (platformApi p) []) \<Longrightarrow>
     platformsSupportingListApplicationsMethod ps acc tr =
       (Inr (acc @ filter (\<lambda>p. exposes p ''ListApplications'') ps),
        tr @ map (\<lambda>p. DiscoverMethods (Platform.name p)) ps)"
proof (induction ps arbitrary: acc tr)
  case Nil
  then show ?case by simp
next
  case (Cons p ps)
  from Cons.prems obtain ms where ms: "discoverMethods (platformApi p) [] = Inr ms"
    by (cases "discoverMethods (platformApi p) []") auto
  from Cons.prems have "steady p" by simp
  then have "discoverMethods (platformApi p) tr = Inr ms"
    using ms by (simp add: steady_def)
  moreover from Cons.prems
  have "\<forall>p \<in> set ps. steady p \<and> \<not> isl (discoverMethods (platformApi p) [])" by simp
  ultimately show ?case
    using ms by (simp add: Cons.IH exposes_def platformHasMethod_iff)
qed

lemma platformHasProvidedApp_steady:
  "steady p \<Longrightarrow> listsAtMostOnce p app \<Longrightarrow>
     platformHasProvidedApp p app tr = (Inr (listsOnce p app), tr @ [listApplicationsCall p])"
proof -
  let ?call = "ByName (''Fdc3.'' @ Platform.name p @ ''.ListApplications'')"
  assume "steady p" and l: "listsAtMostOnce p app"
  then have e: "invoke (platformApi p) tr = invoke (platformApi p) []"
    by (simp add: steady_def)
  show ?thesis
  proof (cases "invoke (platformApi p) [] ?call JUndefined")
    case (Inl x)
    then show ?thesis
      by (simp add: platformHasProvidedApp_def e listsOnce_def timesListed_def
            applicationList_def listApplicationsCall_def Let_def)
  next
    case (Inr r)
    from l Inr obtain xs where xs: "result r = JArr xs"
      and ok: "JUndefined \<notin> set xs" "JNull \<notin> set xs"
      and n: "length [a \<leftarrow> xs. getProp a ''name'' = JStr app] \<le> 1"
      by (cases "result r")
         (auto simp: listsAtMostOnce_def timesListed_def applicationList_def
            split: if_splits)
    from Inr xs ok have t: "timesListed p app = Some (length [a \<leftarrow> xs. getProp a ''name'' = JStr app])"
      by (simp add: timesListed_def applicationList_def)
    from n Inr show ?thesis
      by (simp add: platformHasProvidedApp_def e xs providedAppList_def
            filterByName_entries [OF ok] listsOnce_def t listApplicationsCall_def Let_def)
  qed
qed

lemma withProvidedApp_eq:
  "\<forall>p \<in> set ps. steady p \<and> listsAtMostOnce p app \<Longrightarrow>
     platformsWithProvidedApp app ps acc tr =
       (Inr (acc @ filter (\<lambda>p. listsOnce p app) ps), tr @ map listApplicationsCall ps)"
proof (induction ps arbitrary: acc tr)
  case Nil
  then show ?case by simp
next
  case (Cons p ps)
  from Cons.prems have "steady p" "listsAtMostOnce p app" by simp_all
  from platformHasProvidedApp_steady [OF this]
  have "platformHasProvidedApp p app tr = (Inr (listsOnce p app), tr @ [listApplicationsCall p])" .
  moreover from Cons.prems have "\<forall>p \<in> set ps. steady p \<and> listsAtMostOnce p app" by simp
  ultimately show ?case
    by (simp add: Cons.IH)
qed

lemma supportingStartApplication_single:
  "steady p \<Longrightarrow> \<not> isl (discoverMethods (platformApi p) []) \<Longrightarrow>
     platformsSupportingStartApplicationMethod [p] [] tr =
       (Inr (if exposes p ''StartApplication'' then [p] else []),
        tr @ [DiscoverMethods (Platform.name p)])"
proof -
  assume sp: "steady p" and "\<not> isl (discoverMethods (platformApi p) [])"
  then obtain ms where ms: "discoverMethods (platformApi p) [] = Inr ms"
    by (cases "discoverMethods (platformApi p) []") auto
  from sp ms have "discoverMethods (platformApi p) tr = Inr ms"
    by (simp add: steady_def)
  then show ?thesis
    by (simp add: exposes_def ms platformHasMethod_iff)
qed

lemma getPlatform_unqualified:
  assumes "\<not> truthyName pn"
    and "\<forall>p \<in> set (platforms fdc3). steady p \<and> \<not> isl (discoverMethods (platformApi p) [])"
    and "\<forall>p \<in> set (candidatePlatforms fdc3). listsAtMostOnce p app"
  shows "getPlatform fdc3 d app pn tr =
     (case platformsListing fdc3 app of
        [] \<Rightarrow> (Inl (Error (''There are no platforms with application named ''
                              @ [CHR 0x27] @ app @ [CHR 0x27] @ ''.'')),
               tr @ resolutionCalls fdc3)
      | [p] \<Rightarrow> (Inr (if exposes p ''StartApplication'' then Some p else None),
                tr @ resolutionCalls fdc3 @ [DiscoverMethods (Platform.name p)])
      | p # q # rest \<Rightarrow>
          (Inl (Error (''There are multiple platforms with application named ''
                              @ [CHR 0x27] @ app @ [CHR 0x27] @ ''.'')),
               tr @ resolutionCalls fdc3))"
proof -
  let ?tr1 = "tr @ map (\<lambda>p. DiscoverMethods (Platform.name p)) (platforms fdc3)"
  have c: "\<forall>p \<in> set (candidatePlatforms fdc3). steady p \<and> listsAtMostOnce p app"
    using assms(2,3) by (auto simp: candidatePlatforms_def)
  have s1: "platformsSupportingListApplicationsMethod (platforms fdc3) [] tr =
              (Inr (candidatePlatforms fdc3), ?tr1)"
    using supportingListApplications_eq [OF assms(2), of "[]" tr]
    by (simp add: candidatePlatforms_def)
  have s2: "platformsWithProvidedApp app (candidatePlatforms fdc3) [] ?tr1 =
              (Inr (platformsListing fdc3 app), tr @ resolutionCalls fdc3)"
    using withProvidedApp_eq [OF c, of "[]" ?tr1]
    by (simp add: platformsListing_def resolutionCalls_def)
  have g: "getPlatform fdc3 d app pn tr =
     (if length (platformsListing fdc3 app) = 0
      then (Inl (Error (''There are no platforms with application named ''
                          @ [CHR 0x27] @ app @ [CHR 0x27] @ ''.'')), tr @ resolutionCalls fdc3)
      else if length (platformsListing fdc3 app) > 1
      then (Inl (Error (''There are multiple platforms with application named ''
                          @ [CHR 0x27] @ app @ [CHR 0x27] @ ''.'')), tr @ resolutionCalls fdc3)
      else
        (case platformsSupportingStartApplicationMethod (platformsListing fdc3 app) []
                (tr @ resolutionCalls fdc3) of
           (Inl e, tr3) \<Rightarrow> (Inl e, tr3)
         | (Inr supportingStartApplication, tr3) \<Rightarrow>
             (case supportingStartApplication of
                [] \<Rightarrow> (Inr None, tr3)
              | p # rest \<Rightarrow> (Inr (Some p), tr3))))"
    using assms(1) by (simp add: getPlatform_def s1 s2)
  show ?thesis
  proof (cases "platformsListing fdc3 app")
    case Nil
    then show ?thesis by (simp add: g)
  next
    case (Cons p rest)
    show ?thesis
    proof (cases rest)
      case Nil
      with Cons have l: "platformsListing fdc3 app = [p]" by simp
      then have "p \<in> set (platformsListing fdc3 app)" by simp
      then have "p \<in> set (platforms fdc3)"
        by (auto simp: platformsListing_def candidatePlatforms_def)
      with assms(2) have "steady p" and "\<not> isl (discoverMethods (platformApi p) [])" by auto
      from supportingStartApplication_single [OF this] show ?thesis
        by (simp add: g l)
    next
      case (Cons q rest')
      with \<open>platformsListing fdc3 app = p # rest\<close> show ?thesis
        by (simp add: g)
    qed
  qed
qed

lemma open_unqualified_cases:
  assumes "isNonEmptyString app" and "\<not> truthyName (getPlatformName (asString app))"
    and "\<not> malformedContext c"
    and "\<forall>p \<in> set (platforms fdc3). steady p \<and> \<not> isl (discoverMethods (platformApi p) [])"
    and "\<forall>p \<in> set (candidatePlatforms fdc3). listsAtMostOnce p (asString app)"
  shows "open fdc3 app c others tr =
     (case platformsListing fdc3 (asString app) of
        [] \<Rightarrow> (Inl (Error (''There are no platforms with application named ''
                              @ [CHR 0x27] @ asString app @ [CHR 0x27] @ ''.'')),
               tr @ resolutionCalls fdc3)
      | [p] \<Rightarrow>
          (if exposes p ''StartApplication''
           then (startOutcome p (asString app) c
                   (defaultErrorMessageAt (unableToStart (asString app)) others
                      (tr @ resolutionCalls fdc3 @
                         [DiscoverMethods (Platform.name p), startCall p (asString app) c])),
                 tr @ resolutionCalls fdc3 @
                   [DiscoverMethods (Platform.name p), startCall p (asString app) c])
           else (Inl (TypeError ''Cannot read properties of undefined''),
                 tr @ resolutionCalls fdc3 @ [DiscoverMethods (Platform.name p)]))
      | p # q # rest \<Rightarrow>
          (Inl (Error (''There are multiple platforms with application named ''
                              @ [CHR 0x27] @ asString app @ [CHR 0x27] @ ''.'')),
               tr @ resolutionCalls fdc3))"
proof -
  from assms(1,3) have v: "validateOpenParams app c = Inr ()"
    by (simp add: validateOpenParams_accepts)
  note g = getPlatform_unqualified [OF _ assms(4,5), of None]
  show ?thesis
  proof (cases "platformsListing fdc3 (asString app)")
    case Nil
    then show ?thesis
      using assms(2) by (simp add: open_def v g message_or_def)
  next
    case (Cons p rest)
    show ?thesis
    proof (cases rest)
      case Nil
      with Cons have l: "platformsListing fdc3 (asString app) = [p]" by simp
      then have "p \<in> set (platformsListing fdc3 (asString app))" by simp
      then have "p \<in> set (platforms fdc3)"
        by (auto simp: platformsListing_def candidatePlatforms_def)
      with assms(4) have "steady p" by auto
      then have e: "invoke (platformApi p)
                      (tr @ resolutionCalls fdc3 @ [DiscoverMethods (Platform.name p)]) =
                    invoke (platformApi p) []"
        by (simp add: steady_def)
      show ?thesis
        using assms(2) l
        by (simp add: open_def v g e startOutcome_def startCall_def unableToStart_def Let_def
              split: sum.splits)
    next
      case (Cons q rest')
      with \<open>platformsListing fdc3 (asString app) = p # rest\<close> show ?thesis
        using assms(2) by (simp add: open_def v g message_or_def)
    qed
  qed
qed

text \<open>
  C4, as amended. \<^verbatim>\<open>open(app)\<close> with an unqualified name and a valid context, on steady
  platforms whose discoveries resolve and whose candidates each return an application list
  that names \<^verbatim>\<open>app\<close> at most once. If no candidate platform lists the application, the
  call rejects with the not-found error. If more than one does, it rejects with the
  ambiguity error. If exactly one does and it exposes \<^verbatim>\<open>StartApplication\<close>, that
  capability is invoked with \<^verbatim>\<open>{application, context}\<close>; the call resolves with the
  payload of the invocation when it resolves, and when it rejects the call rejects with the
  message that the engine's \<^verbatim>\<open>defaultErrorMessage\<close> field holds at that moment: the
  message \<^verbatim>\<open>Unable to start application named "<app>"\<close> of this call, unless another call
  of \<^verbatim>\<open>open\<close> has overwritten the field while this one was suspended, and then the
  message of that call. In each case the remote calls are one discovery per platform, one
  listing per candidate and, in the last, a second discovery on the platform found and the
  start call.
\<close>

theorem open_unqualified_resolution:
  assumes "isNonEmptyString app" and "\<not> truthyName (getPlatformName (asString app))"
    and "\<not> malformedContext c"
    and "\<forall>p \<in> set (platforms fdc3). steady p \<and> \<not> isl (discoverMethods (platformApi p) [])"
    and "\<forall>p \<in> set (candidatePlatforms fdc3). listsAtMostOnce p (asString app)"
  shows
    "(platformsListing fdc3 (asString app) = [] \<longrightarrow>
        open fdc3 app c others tr =
          (Inl (Error (''There are no platforms with application named ''
                         @ [CHR 0x27] @ asString app @ [CHR 0x27] @ ''.'')),
           tr @ resolutionCalls fdc3)) \<and>
     (length (platformsListing fdc3 (asString app)) > 1 \<longrightarrow>
        open fdc3 app c others tr =
          (Inl (Error (''There are multiple platforms with application named ''
                         @ [CHR 0x27] @ asString app @ [CHR 0x27] @ ''.'')),
           tr @ resolutionCalls fdc3)) \<and>
     (\<forall>p. platformsListing fdc3 (asString app) = [p] \<and> exposes p ''StartApplication'' \<longrightarrow>
        open fdc3 app c others tr =
          (startOutcome p (asString app) c
             (case others (tr @ resolutionCalls fdc3 @
                             [DiscoverMethods (Platform.name p), startCall p (asString app) c]) of
                None \<Rightarrow> unableToStart (asString app)
              | Some overwritten \<Rightarrow> overwritten),
           tr @ resolutionCalls fdc3 @
             [DiscoverMethods (Platform.name p), startCall p (asString app) c]))"
proof (intro conjI impI allI)
  assume "platformsListing fdc3 (asString app) = []"
  then show "open fdc3 app c others tr =
          (Inl (Error (''There are no platforms with application named ''
                         @ [CHR 0x27] @ asString app @ [CHR 0x27] @ ''.'')),
           tr @ resolutionCalls fdc3)"
    using open_unqualified_cases [OF assms, of others tr] by simp
next
  assume "length (platformsListing fdc3 (asString app)) > 1"
  then obtain p q rest where "platformsListing fdc3 (asString app) = p # q # rest"
    by (cases "platformsListing fdc3 (asString app)" rule: list.exhaust)
       (auto simp: neq_Nil_conv)
  then show "open fdc3 app c others tr =
          (Inl (Error (''There are multiple platforms with application named ''
                         @ [CHR 0x27] @ asString app @ [CHR 0x27] @ ''.'')),
           tr @ resolutionCalls fdc3)"
    using open_unqualified_cases [OF assms, of others tr] by simp
next
  fix p
  assume "platformsListing fdc3 (asString app) = [p] \<and> exposes p ''StartApplication''"
  then show "open fdc3 app c others tr =
          (startOutcome p (asString app) c
             (case others (tr @ resolutionCalls fdc3 @
                             [DiscoverMethods (Platform.name p), startCall p (asString app) c]) of
                None \<Rightarrow> unableToStart (asString app)
              | Some overwritten \<Rightarrow> overwritten),
           tr @ resolutionCalls fdc3 @
             [DiscoverMethods (Platform.name p), startCall p (asString app) c])"
    using open_unqualified_cases [OF assms, of others tr]
    by (simp add: defaultErrorMessageAt_def)
qed

text \<open>
  Witness: the application \<^verbatim>\<open>app\<close> listed by no platform, by both platforms, and by
  platform A alone; and listed by platform A alone when the start call rejects, once with
  no other call of \<^verbatim>\<open>open\<close> in flight and once with a call for the application
  \<^verbatim>\<open>mail\<close> that has overwritten the field.
\<close>

lemma launcher_steady: "steady (launcher n capabilities listing)"
  by (simp add: steady_def launcher_def fullLauncher_def example_defs)

lemma launcher_discovers:
  "\<not> isl (discoverMethods (platformApi (launcher n capabilities listing)) [])"
  by (simp add: launcher_def fullLauncher_def example_defs)

lemma refusingLauncher_steady: "steady (refusingLauncher n listing)"
  by (simp add: steady_def refusingLauncher_def example_defs)

lemma refusingLauncher_discovers:
  "\<not> isl (discoverMethods (platformApi (refusingLauncher n listing)) [])"
  by (simp add: refusingLauncher_def example_defs)

theorem open_unqualified_resolution_witness:
  "isNonEmptyString (JStr ''app'') \<and> \<not> truthyName (getPlatformName (asString (JStr ''app''))) \<and>
   \<not> malformedContext JUndefined \<and>
   open \<lparr>platforms = [fullLauncher ''A'' [''mail''], fullLauncher ''B'' []]\<rparr>
       (JStr ''app'') JUndefined (\<lambda>h. None) [] =
     (Inl (Error (''There are no platforms with application named ''
                    @ [CHR 0x27] @ ''app'' @ [CHR 0x27] @ ''.'')),
      [DiscoverMethods ''A'', DiscoverMethods ''B'',
       Invoke ''A'' (ByName ''Fdc3.A.ListApplications'') JUndefined,
       Invoke ''B'' (ByName ''Fdc3.B.ListApplications'') JUndefined]) \<and>
   open \<lparr>platforms = [fullLauncher ''A'' [''app''], fullLauncher ''B'' [''app'']]\<rparr>
       (JStr ''app'') JUndefined (\<lambda>h. None) [] =
     (Inl (Error (''There are multiple platforms with application named ''
                    @ [CHR 0x27] @ ''app'' @ [CHR 0x27] @ ''.'')),
      [DiscoverMethods ''A'', DiscoverMethods ''B'',
       Invoke ''A'' (ByName ''Fdc3.A.ListApplications'') JUndefined,
       Invoke ''B'' (ByName ''Fdc3.B.ListApplications'') JUndefined]) \<and>
   open \<lparr>platforms = [fullLauncher ''A'' [''app''], fullLauncher ''B'' [''mail'']]\<rparr>
       (JStr ''app'') JUndefined (\<lambda>h. None) [] =
     (Inr (JStr ''started''),
      [DiscoverMethods ''A'', DiscoverMethods ''B'',
       Invoke ''A'' (ByName ''Fdc3.A.ListApplications'') JUndefined,
       Invoke ''B'' (ByName ''Fdc3.B.ListApplications'') JUndefined,
       DiscoverMethods ''A'',
       Invoke ''A'' (ByName ''Fdc3.A.StartApplication'')
         (JObj [(''application'', JStr ''app''), (''context'', JUndefined)])]) \<and>
   fst (open \<lparr>platforms = [refusingLauncher ''A'' [''app'']]\<rparr>
          (JStr ''app'') JUndefined (\<lambda>h. None) []) =
     Inl (Error (unableToStart ''app'')) \<and>
   fst (open \<lparr>platforms = [refusingLauncher ''A'' [''app'']]\<rparr>
          (JStr ''app'') JUndefined (\<lambda>h. Some (unableToStart ''mail'')) []) =
     Inl (Error (unableToStart ''mail''))"
proof -
  let ?none = "\<lparr>platforms = [fullLauncher ''A'' [''mail''], fullLauncher ''B'' []]\<rparr>"
  let ?both = "\<lparr>platforms = [fullLauncher ''A'' [''app''], fullLauncher ''B'' [''app'']]\<rparr>"
  let ?one = "\<lparr>platforms = [fullLauncher ''A'' [''app''], fullLauncher ''B'' [''mail'']]\<rparr>"
  let ?busy = "\<lparr>platforms = [refusingLauncher ''A'' [''app'']]\<rparr>"
  note defs = candidatePlatforms_def exposes_def listsAtMostOnce_def listsOnce_def
    timesListed_def applicationList_def platformsListing_def launcher_def fullLauncher_def
    refusingLauncher_def example_defs
  have a: "isNonEmptyString (JStr ''app'')" by simp
  have u: "\<not> truthyName (getPlatformName (asString (JStr ''app'')))"
    by (simp add: getPlatformName_def)
  have c: "\<not> malformedContext JUndefined" by (simp add: malformedContext_def)
  have s: "\<forall>p \<in> set (platforms fdc3). steady p \<and> \<not> isl (discoverMethods (platformApi p) [])"
    if "fdc3 \<in> {?none, ?both, ?one, ?busy}" for fdc3
    using that launcher_steady launcher_discovers refusingLauncher_steady
      refusingLauncher_discovers
    by (auto simp: fullLauncher_def)
  have l: "\<forall>p \<in> set (candidatePlatforms fdc3). listsAtMostOnce p (asString (JStr ''app''))"
    if "fdc3 \<in> {?none, ?both, ?one, ?busy}" for fdc3
    using that by (auto simp: defs)
  have n: "platformsListing ?none (asString (JStr ''app'')) = []"
    by (simp add: defs)
  have b: "length (platformsListing ?both (asString (JStr ''app''))) > 1"
    by (simp add: defs)
  have o: "platformsListing ?one (asString (JStr ''app'')) = [fullLauncher ''A'' [''app'']] \<and>
           exposes (fullLauncher ''A'' [''app'']) ''StartApplication''"
    by (simp add: defs)
  have r: "platformsListing ?busy (asString (JStr ''app'')) = [refusingLauncher ''A'' [''app'']] \<and>
           exposes (refusingLauncher ''A'' [''app'']) ''StartApplication''"
    by (simp add: defs)
  from open_unqualified_resolution [OF a u c s l, of ?none "\<lambda>h. None" "[]"] n
  have "open ?none (JStr ''app'') JUndefined (\<lambda>h. None) [] =
          (Inl (Error (''There are no platforms with application named ''
                         @ [CHR 0x27] @ ''app'' @ [CHR 0x27] @ ''.'')),
           resolutionCalls ?none)"
    by simp
  moreover from open_unqualified_resolution [OF a u c s l, of ?both "\<lambda>h. None" "[]"] b
  have "open ?both (JStr ''app'') JUndefined (\<lambda>h. None) [] =
          (Inl (Error (''There are multiple platforms with application named ''
                         @ [CHR 0x27] @ ''app'' @ [CHR 0x27] @ ''.'')),
           resolutionCalls ?both)"
    by simp
  moreover from open_unqualified_resolution [OF a u c s l, of ?one "\<lambda>h. None" "[]"] o
  have "open ?one (JStr ''app'') JUndefined (\<lambda>h. None) [] =
          (startOutcome (fullLauncher ''A'' [''app'']) ''app'' JUndefined (unableToStart ''app''),
           resolutionCalls ?one @
             [DiscoverMethods (Platform.name (fullLauncher ''A'' [''app''])),
              startCall (fullLauncher ''A'' [''app'']) ''app'' JUndefined])"
    by simp
  moreover from open_unqualified_resolution [OF a u c s l, of ?busy "\<lambda>h. None" "[]"] r
  have "fst (open ?busy (JStr ''app'') JUndefined (\<lambda>h. None) []) =
          startOutcome (refusingLauncher ''A'' [''app'']) ''app'' JUndefined (unableToStart ''app'')"
    by simp
  moreover from open_unqualified_resolution
    [OF a u c s l, of ?busy "\<lambda>h. Some (unableToStart ''mail'')" "[]"] r
  have "fst (open ?busy (JStr ''app'') JUndefined (\<lambda>h. Some (unableToStart ''mail'')) []) =
          startOutcome (refusingLauncher ''A'' [''app'']) ''app'' JUndefined (unableToStart ''mail'')"
    by simp
  ultimately show ?thesis
    using a u c
    by (simp add: resolutionCalls_def candidatePlatforms_def exposes_def
          listApplicationsCall_def startOutcome_def startCall_def launcher_def
          fullLauncher_def refusingLauncher_def example_defs)
qed

text \<open>
  The claim as it stands fails when the one platform that lists the application lists it
  twice: platform A exposes both capabilities and is alone in listing \<^verbatim>\<open>app\<close>, yet
  \<^verbatim>\<open>open\<close> rejects after the listing call and the start capability is not invoked.
\<close>

theorem open_duplicate_listing_counterexample:
  "open \<lparr>platforms = [fullLauncher ''A'' [''app'', ''app'']]\<rparr> (JStr ''app'') JUndefined
       (\<lambda>h. None) [] =
     (Inl (Error (''There are multiple applications named ''
                    @ [CHR 0x27] @ ''app'' @ [CHR 0x27] @ ''.'')),
      [DiscoverMethods ''A'', Invoke ''A'' (ByName ''Fdc3.A.ListApplications'') JUndefined])"
  by (simp add: open_def validateOpenParams_def validateContext_def getPlatformName_def
        getPlatform_def platformHasMethod_def platformHasProvidedApp_def providedAppList_def
        launcher_def fullLauncher_def example_defs Let_def message_or_def)

text \<open>
  C5. Platform A exposes \<^verbatim>\<open>ListApplications\<close> but not \<^verbatim>\<open>StartApplication\<close>, and lists
  \<^verbatim>\<open>app\<close>. The resolution ends with no platform, and \<^verbatim>\<open>open\<close> rejects with the TypeError
  of the read of \<^verbatim>\<open>platform.name\<close>, which is neither the default message nor a message of
  the resolution, whatever other calls of \<^verbatim>\<open>open\<close> are in flight.
\<close>

theorem open_missing_start_capability:
  "open \<lparr>platforms = [launcher ''A'' [''ListApplications''] [''app'']]\<rparr>
       (JStr ''app'') JUndefined others [] =
     (Inl (TypeError ''Cannot read properties of undefined''),
      [DiscoverMethods ''A'',
       Invoke ''A'' (ByName ''Fdc3.A.ListApplications'') JUndefined,
       DiscoverMethods ''A''])"
  by (simp add: open_def validateOpenParams_def validateContext_def getPlatformName_def
        getPlatform_def platformHasMethod_def platformHasProvidedApp_def providedAppList_def
        launcher_def fullLauncher_def example_defs Let_def)

end
